theory Spec2Isabelle
  imports Complex_Main "HOL-Library.AList"
begin

section \<open>Python values used by the loader\<close>

text \<open>
  Exceptions are values. \<open>RuntimeError\<close> carries the message of the \<open>raise\<close> statement;
  the other constructors are the built-in exceptions that list indexing, \<open>range\<close>,
  \<open>random.randint\<close>, attribute access, name lookup and the conversion of a float to
  an integer raise.
\<close>

datatype error =
    RuntimeError string
  | IndexError
  | ValueError
  | TypeError
  | KeyError
  | AttributeError
  | NameError
  | OverflowError

text \<open>
  Sequencing: an exception raised by the first computation ends the whole computation.
\<close>

definition bind :: "error + 'a \<Rightarrow> ('a \<Rightarrow> error + 'b) \<Rightarrow> error + 'b" where
  "bind m f = (case m of Inl e \<Rightarrow> Inl e | Inr v \<Rightarrow> f v)"

text \<open>\<open>xs[i]\<close> on a Python list or tuple: a negative index counts from the end.\<close>

definition list_get :: "'a list \<Rightarrow> int \<Rightarrow> error + 'a" where
  "list_get xs i =
     (if 0 \<le> i \<and> i < int (length xs) then Inr (xs ! nat i)
      else if - int (length xs) \<le> i \<and> i < 0 then Inr (xs ! nat (i + int (length xs)))
      else Inl IndexError)"

text \<open>
  \<open>range(start, stop, step)\<close>: the number of elements as CPython computes it, and the
  elements \<open>start + i * step\<close>. A zero step raises \<open>ValueError\<close>.
\<close>

definition range_len :: "int \<Rightarrow> int \<Rightarrow> int \<Rightarrow> nat" where
  "range_len start stop step =
     (if 0 < step then (if start < stop then nat ((stop - start - 1) div step + 1) else 0)
      else if step < 0 then (if stop < start then nat ((start - stop - 1) div (- step) + 1) else 0)
      else 0)"

definition py_range :: "int \<Rightarrow> int \<Rightarrow> int \<Rightarrow> error + int list" where
  "py_range start stop step =
     (if step = 0 then Inl ValueError
      else Inr (map (\<lambda>i. start + int i * step) [0..<range_len start stop step]))"

text \<open>
  A numpy array or torch tensor: its shape and its elements in row-major order.
  A 0-dimensional array has shape \<open>[]\<close> and one element.
\<close>

record ndarray =
  shape :: "int list"
  voxels :: "real list"

text \<open>
  A metadata record is a Python dict with string keys, kept as an association list;
  the values the loader itself writes are integer lists (\<open>index_shape\<close>, \<open>coord\<close>).
\<close>

datatype meta_value = IntList "int list" | Str string

type_synonym metadata = "(string \<times> meta_value) list"

text \<open>
  An element of a \<open>gt\<close> list is an array, or (several raters) a list of arrays; an
  element of a \<open>gt_metadata\<close> list is a dict, or a list of dicts.
\<close>

datatype slice_data = Arr ndarray | Raters "ndarray list"

datatype slice_meta = Meta metadata | RaterMetas "metadata list"

text \<open>
  The dict returned by \<open>SegmentationPair.get_pair_slice\<close>; a value that Python holds as
  \<open>None\<close> is \<open>None\<close> of the option type.
\<close>

record pair_slice =
  input :: "ndarray list"
  gt :: "slice_data list option"
  input_metadata :: "metadata list option"
  gt_metadata :: "slice_meta list option"

text \<open>The dict that \<open>prepare_indices\<close> appends for one patch.\<close>

record coord =
  x_min :: int
  x_max :: int
  y_min :: int
  y_max :: int
  handler_index :: int

text \<open>
  \<open>self.indexes\<close> holds patch dicts when patching is on and
  \<open>(seg_pair_slice, roi_pair_slice)\<close> tuples otherwise.
\<close>

datatype index_entry = Patch coord | Item "pair_slice \<times> pair_slice"

text \<open>
  The attributes of \<open>MRI2DSegmentationDataset\<close>. The callables (\<open>transform\<close>,
  \<open>slice_filter_fn\<close>) live in the environment records below; \<open>'p\<close> is the type of
  \<open>prepro_transforms\<close>, \<open>'f\<close> the rest of a filename tuple after its input filenames.
\<close>

record ('p, 'f) dataset =
  indexes :: "index_entry list"
  handlers :: "(pair_slice \<times> pair_slice) list"
  filename_pairs :: "(string list \<times> 'f) list"
  length_2D :: "int list"
  stride_2D :: "int list"
  is_2d_patch :: bool
  prepro_transforms :: 'p
  cache :: bool
  slice_axis :: int
  n_contrasts :: nat
  roi_thr :: "int option"
  slice_filter_roi :: bool
  soft_gt :: bool
  has_bounding_box :: bool
  task :: string
  is_input_dropout :: bool

section \<open>Index building: \<open>prepare_indices\<close>\<close>

text \<open>
  Lines 151-155: the loop over \<open>zip(self.length, self.stride, shape)\<close>, which stops at
  the shortest of the three.
\<close>

fun check_dims :: "int list \<Rightarrow> int list \<Rightarrow> int list \<Rightarrow> error + unit" where
  \<open>check_dims (len # lens) (stride # strides) (sz # szs) =
     (if stride > len \<or> stride \<le> 0 then
        Inl (RuntimeError ''"stride_2D" must be greater than 0 and smaller or equal to "length_2D".'')
      else if len > sz then
        Inl (RuntimeError ''"length_2D" must be smaller or equal to image dimensions.'')
      else check_dims lens strides szs)\<close>
| "check_dims _ _ _ = Inr ()"

text \<open>Lines 158-159 and 161-162: a start whose patch would overrun is moved back.\<close>

definition clamp_start :: "int \<Rightarrow> int \<Rightarrow> int \<Rightarrow> int" where
  "clamp_start x len sz = (if x + len > sz then sz - len else x)"

text \<open>Lines 160-168, for one (already moved) \<open>x\<close>: the inner loop over \<open>y\<close>.\<close>

definition y_loop :: "int list \<Rightarrow> int list \<Rightarrow> int list \<Rightarrow> int \<Rightarrow> int \<Rightarrow> error + coord list" where
  "y_loop len stride shp i x =
     bind (list_get shp 1) (\<lambda>w.
     bind (list_get len 1) (\<lambda>l1.
     bind (list_get stride 1) (\<lambda>s1.
     bind (list_get len 0) (\<lambda>l0.
     bind (py_range 0 (w - l1 + s1) s1) (\<lambda>ys.
       Inr (map (\<lambda>y. let y' = clamp_start y l1 w in
                   \<lparr>x_min = x, x_max = x + l0, y_min = y', y_max = y' + l1,
                    handler_index = i\<rparr>) ys))))))"

text \<open>Lines 157-168: the outer loop over the \<open>x\<close> starts already produced by \<open>range\<close>.\<close>

fun x_loop :: "int list \<Rightarrow> int list \<Rightarrow> int list \<Rightarrow> int \<Rightarrow> int list \<Rightarrow> error + coord list" where
  "x_loop len stride shp i [] = Inr []"
| "x_loop len stride shp i (x # xs) =
     bind (list_get len 0) (\<lambda>l0.
     bind (list_get shp 0) (\<lambda>h.
     bind (y_loop len stride shp i (clamp_start x l0 h)) (\<lambda>row.
     bind (x_loop len stride shp i xs) (\<lambda>rest. Inr (row @ rest)))))"

text \<open>Lines 146-168: the body of the loop over the handlers, for handler \<open>i\<close>.\<close>

definition handler_patches ::
  "int list \<Rightarrow> int list \<Rightarrow> int \<Rightarrow> (pair_slice \<times> pair_slice) \<Rightarrow> error + coord list" where
  \<open>handler_patches len stride i h =
     bind (list_get (input (fst h)) 0) (\<lambda>img.
       let shp = shape img in
       if length len \<noteq> 2 \<or> length stride \<noteq> 2 then
         Inl (RuntimeError ''"length_2D" and "stride_2D" must be of length 2.'')
       else
         bind (check_dims len stride shp) (\<lambda>_.
         bind (list_get shp 0) (\<lambda>h0.
         bind (list_get len 0) (\<lambda>l0.
         bind (list_get stride 0) (\<lambda>s0.
         bind (py_range 0 (h0 - l0 + s0) s0) (\<lambda>xs.
           x_loop len stride shp i xs))))))\<close>

text \<open>Line 144: \<open>for i in range(0, len(self.handlers))\<close>; an exception ends the build.\<close>

fun prepare_loop ::
  "int list \<Rightarrow> int list \<Rightarrow> nat \<Rightarrow> (pair_slice \<times> pair_slice) list \<Rightarrow> error + coord list" where
  "prepare_loop len stride i [] = Inr []"
| "prepare_loop len stride i (h # hs) =
     bind (handler_patches len stride (int i) h) (\<lambda>cs.
     bind (prepare_loop len stride (Suc i) hs) (\<lambda>rest. Inr (cs @ rest)))"

definition prepare_indices :: "('p, 'f) dataset \<Rightarrow> error + ('p, 'f) dataset" where
  "prepare_indices self =
     bind (prepare_loop (length_2D self) (stride_2D self) 0 (handlers self)) (\<lambda>cs.
       Inr (self\<lparr>indexes := indexes self @ map Patch cs\<rparr>))"

text \<open>\<open>__len__\<close>.\<close>

definition len :: "('p, 'f) dataset \<Rightarrow> nat" where
  "len self = length (indexes self)"

section \<open>Construction and the load phase\<close>

text \<open>The \<open>roi_params\<close> dict, with its two keys.\<close>

record roi_params =
  suffix :: "string option"
  roi_slice_filter_roi :: "int option"

text \<open>
  \<open>__init__\<close>. The \<open>transform\<close> argument is a pair; its first component becomes
  \<open>prepro_transforms\<close>, its second is the \<open>transform\<close> callable of the fetch
  environment below. Unpacking \<open>None\<close> raises \<open>TypeError\<close>, and
  \<open>filename_pairs[0]\<close> raises \<open>IndexError\<close> on an empty list.
\<close>

definition init ::
  "(string list \<times> 'f) list \<Rightarrow> int list option \<Rightarrow> int list option \<Rightarrow> int \<Rightarrow> bool \<Rightarrow> 'p option \<Rightarrow>
   string \<Rightarrow> roi_params option \<Rightarrow> bool \<Rightarrow> bool \<Rightarrow> error + ('p, 'f) dataset" where
  "init fps length_arg stride_arg axis cch transform tsk rparams soft dropout =
     (let len' = (case length_arg of None \<Rightarrow> [] | Some l \<Rightarrow> l);
          stride' = (case stride_arg of None \<Rightarrow> [] | Some s \<Rightarrow> s)
      in case transform of
           None \<Rightarrow> Inl TypeError
         | Some prepro \<Rightarrow>
             bind (list_get fps 0) (\<lambda>fp.
               let rp = (case rparams of
                           None \<Rightarrow> \<lparr>suffix = None, roi_slice_filter_roi = None\<rparr>
                         | Some r \<Rightarrow> r)
               in Inr \<lparr>indexes = [], handlers = [], filename_pairs = fps,
                       length_2D = len', stride_2D = stride',
                       is_2d_patch = (len' \<noteq> []),
                       prepro_transforms = prepro, cache = cch, slice_axis = axis,
                       n_contrasts = length (fst fp),
                       roi_thr = roi_slice_filter_roi rp,
                       slice_filter_roi = (suffix rp \<noteq> None \<and> roi_slice_filter_roi rp \<noteq> None),
                       soft_gt = soft, has_bounding_box = True, task = tsk,
                       is_input_dropout = dropout\<rparr>))"

text \<open>
  The collaborators of \<open>load_filenames\<close> that are not part of the loader class and
  not among the sources: the two \<open>SegmentationPair\<close> constructor calls of lines 100-105
  (the ROI pair first), the number of slices \<open>input_data_shape[-1]\<close>,
  \<open>get_pair_slice\<close>, the bounding-box helpers and the two slice filters.
  \<open>'sp\<close> is the type of a \<open>SegmentationPair\<close> object.
\<close>

record ('p, 'f, 'sp) load_env =
  segmentation_pairs :: "('p, 'f) dataset \<Rightarrow> (string list \<times> 'f) \<Rightarrow> 'sp \<times> 'sp"
  n_slices :: "'sp \<Rightarrow> nat"
  get_pair_slice :: "'sp \<Rightarrow> nat \<Rightarrow> string \<Rightarrow> pair_slice"
  verify_metadata :: "pair_slice \<Rightarrow> bool \<Rightarrow> bool"
  adjust_transforms :: "'p \<Rightarrow> pair_slice \<Rightarrow> 'p"
  slice_filter_fn :: "(pair_slice \<Rightarrow> bool) option"
  filter_roi :: "slice_data list option \<Rightarrow> int option \<Rightarrow> bool"

text \<open>
  Line 125 calls \<open>imed_transforms.apply_preprocessing_transforms\<close>, where
  \<open>imed_transforms\<close> is the module \<open>ivadomed/transforms.py\<close> (line 9). That module
  defines \<open>get_transform_names\<close>, \<open>ROICrop2D\<close> and \<open>DilateGT\<close> and no
  \<open>apply_preprocessing_transforms\<close>: reading the attribute raises \<open>AttributeError\<close>,
  whatever the arguments are.
\<close>

definition apply_preprocessing_transforms ::
  "'p \<Rightarrow> pair_slice \<Rightarrow> pair_slice \<Rightarrow> error + (pair_slice \<times> pair_slice)" where
  "apply_preprocessing_transforms prepro seg roi = Inl AttributeError"

text \<open>
  Lines 131-132: every input metadata dict receives the shape of the first input array.
  The array is only read when there is a dict to update.
\<close>

definition set_index_shape :: "pair_slice \<Rightarrow> error + pair_slice" where
  "set_index_shape seg =
     (case input_metadata seg of
        None \<Rightarrow> Inl TypeError
      | Some [] \<Rightarrow> Inr seg
      | Some (md # mds) \<Rightarrow>
          bind (list_get (input seg) 0) (\<lambda>img.
            Inr (seg\<lparr>input_metadata :=
                      Some (map (AList.update ''index_shape'' (IntList (shape img))) (md # mds))\<rparr>)))"

text \<open>Lines 110-136: the body of the loop over the slices of one pair.\<close>

definition load_slice ::
  "('p, 'f, 'sp) load_env \<Rightarrow> 'sp \<Rightarrow> 'sp \<Rightarrow> ('p, 'f) dataset \<Rightarrow> nat \<Rightarrow> error + ('p, 'f) dataset" where
  "load_slice env roi_pair seg_pair self idx_pair_slice =
     (let slice_seg_pair = get_pair_slice env seg_pair idx_pair_slice (task self);
          self1 = self\<lparr>has_bounding_box :=
                         verify_metadata env slice_seg_pair (has_bounding_box self)\<rparr>;
          self2 = (if has_bounding_box self1
                   then self1\<lparr>prepro_transforms :=
                                adjust_transforms env (prepro_transforms self1) slice_seg_pair\<rparr>
                   else self1)
      in if (case slice_filter_fn env of None \<Rightarrow> False | Some f \<Rightarrow> \<not> f slice_seg_pair)
         then Inr self2
         else
           let slice_roi_pair = get_pair_slice env roi_pair idx_pair_slice ''segmentation''
           in if slice_filter_roi self2 \<and> filter_roi env (gt slice_roi_pair) (roi_thr self2)
              then Inr self2
              else
                bind (apply_preprocessing_transforms (prepro_transforms self2)
                        slice_seg_pair slice_roi_pair) (\<lambda>item.
                  if is_2d_patch self2
                  then bind (set_index_shape (fst item)) (\<lambda>seg.
                         Inr (self2\<lparr>handlers := handlers self2 @ [(seg, snd item)]\<rparr>))
                  else Inr (self2\<lparr>indexes := indexes self2 @ [Item item]\<rparr>)))"

text \<open>Line 109: the loop over the slice numbers.\<close>

fun slice_loop ::
  "('p, 'f, 'sp) load_env \<Rightarrow> 'sp \<Rightarrow> 'sp \<Rightarrow> ('p, 'f) dataset \<Rightarrow> nat list \<Rightarrow> error + ('p, 'f) dataset" where
  "slice_loop env roi_pair seg_pair self [] = Inr self"
| "slice_loop env roi_pair seg_pair self (idx # idxs) =
     bind (load_slice env roi_pair seg_pair self idx) (\<lambda>self'.
       slice_loop env roi_pair seg_pair self' idxs)"

text \<open>Line 99: the loop over the filename pairs.\<close>

fun pair_loop ::
  "('p, 'f, 'sp) load_env \<Rightarrow> ('p, 'f) dataset \<Rightarrow> (string list \<times> 'f) list \<Rightarrow> error + ('p, 'f) dataset" where
  "pair_loop env self [] = Inr self"
| "pair_loop env self (fp # fps) =
     (let (roi_pair, seg_pair) = segmentation_pairs env self fp
      in bind (slice_loop env roi_pair seg_pair self [0..<n_slices env seg_pair]) (\<lambda>self'.
           pair_loop env self' fps))"

text \<open>\<open>load_filenames\<close>: the load loop, then \<open>prepare_indices\<close> when patching is on.\<close>

definition load_filenames :: "('p, 'f, 'sp) load_env \<Rightarrow> ('p, 'f) dataset \<Rightarrow> error + ('p, 'f) dataset" where
  "load_filenames env self =
     bind (pair_loop env self (filename_pairs self)) (\<lambda>self'.
       if is_2d_patch self' then prepare_indices self' else Inr self')"

section \<open>Sample assembly: \<open>__getitem__\<close>\<close>

subsection \<open>Tensor operations\<close>

text \<open>
  \<open>torch.zeros(*dims)\<close>; a negative dimension is refused with a \<open>RuntimeError\<close>.
\<close>

definition zeros :: "int list \<Rightarrow> error + ndarray" where
  "zeros dims =
     (if list_ex (\<lambda>d. d < 0) dims
      then Inl (RuntimeError ''Trying to create tensor with negative dimension'')
      else Inr \<lparr>shape = dims, voxels = replicate (nat (prod_list dims)) 0\<rparr>)"

text \<open>
  A slice bound \<open>i\<close> of \<open>a[i:j]\<close> on an axis of size \<open>n\<close>: a negative bound counts
  from the end, and every bound is clipped to \<open>[0, n]\<close>. A slice never raises.
\<close>

definition adjust_bound :: "int \<Rightarrow> int \<Rightarrow> int" where
  "adjust_bound n i = (if i < 0 then max 0 (i + n) else min i n)"

definition slice_bounds :: "int \<Rightarrow> int \<Rightarrow> int \<Rightarrow> nat \<times> nat" where
  "slice_bounds n lo hi =
     (let a = adjust_bound n lo; b = adjust_bound n hi in (nat a, nat (max a b)))"

text \<open>
  \<open>t[:, x0:x1, y0:y1]\<close>: the tensor needs three dimensions or more (fewer raise
  \<open>IndexError\<close>, too many indices); further dimensions are kept whole.
\<close>

definition crop :: "ndarray \<Rightarrow> int \<Rightarrow> int \<Rightarrow> int \<Rightarrow> int \<Rightarrow> error + ndarray" where
  "crop t x0 x1 y0 y1 =
     (case shape t of
        c # h # w # rest \<Rightarrow>
          (let (xa, xb) = slice_bounds h x0 x1;
               (ya, yb) = slice_bounds w y0 y1;
               r = nat (prod_list rest)
           in Inr \<lparr>shape = c # int (xb - xa) # int (yb - ya) # rest,
                   voxels = concat (map (\<lambda>ci. concat (map (\<lambda>x.
                              take ((yb - ya) * r)
                                (drop (((ci * nat h + x) * nat w + ya) * r) (voxels t)))
                              [xa..<xb])) [0..<nat c])\<rparr>)
      | _ \<Rightarrow> Inl IndexError)"

text \<open>\<open>len(t)\<close> of a tensor: its first dimension; a 0-dimensional tensor has none.\<close>

definition tensor_len :: "ndarray \<Rightarrow> error + int" where
  "tensor_len t = (case shape t of [] \<Rightarrow> Inl TypeError | n # _ \<Rightarrow> Inr n)"

text \<open>
  \<open>a[i]\<close> on a numpy array: the sub-array at position \<open>i\<close> of the first axis.
\<close>

definition array_get :: "ndarray \<Rightarrow> int \<Rightarrow> error + ndarray" where
  "array_get a i =
     (case shape a of
        [] \<Rightarrow> Inl IndexError
      | n # rest \<Rightarrow>
          if - n \<le> i \<and> i < n then
            (let j = (if i < 0 then i + n else i); r = nat (prod_list rest)
             in Inr \<lparr>shape = rest, voxels = take r (drop (nat j * r) (voxels a))\<rparr>)
          else Inl IndexError)"

text \<open>
  \<open>torch.from_numpy(x).expand(1)\<close>, line 236: a list is no array (\<open>TypeError\<close>); an
  array of no dimension, or of one dimension of size 1, becomes a tensor of shape
  \<open>(1,)\<close>; any other shape cannot be expanded (\<open>RuntimeError\<close>).
\<close>

definition from_numpy_expand1 :: "slice_data \<Rightarrow> error + ndarray" where
  "from_numpy_expand1 x =
     (case x of
        Raters _ \<Rightarrow> Inl TypeError
      | Arr a \<Rightarrow>
          (case shape a of
             [] \<Rightarrow> Inr \<lparr>shape = [1], voxels = voxels a\<rparr>
           | [n] \<Rightarrow> if n = 1 then Inr a
                    else Inl (RuntimeError ''The expanded size of the tensor must match the existing size'')
           | _ \<Rightarrow> Inl (RuntimeError ''the number of sizes provided must be greater or equal to the number of dimensions in the tensor'')))"

subsection \<open>The environment of a fetch\<close>

text \<open>
  What a fetch does beyond computing is written down: \<open>'w\<close> is the state of the world
  outside the loader (the global random generator, the state of the transform objects),
  threaded through every call that can read or change it, and the log records in program
  order each call of \<open>random.randint\<close> (bounds and result) and of \<open>self.transform\<close>
  (role, sample, metadata passed, metadata returned).
\<close>

datatype event =
    RandInt int int int
  | TransformCall string "slice_data list option" "slice_meta list" "slice_meta list"

text \<open>The dict that \<open>__getitem__\<close> returns.\<close>

record data_dict =
  dd_input :: "ndarray option"
  dd_gt :: "ndarray option"
  dd_roi :: "ndarray option"
  dd_input_metadata :: "slice_meta list"
  dd_gt_metadata :: "slice_meta list"
  dd_roi_metadata :: "slice_meta list"

text \<open>
  The collaborators of \<open>__getitem__\<close>: the transform pipeline
  \<open>self.transform(sample, metadata, data_type)\<close>, \<open>random.randint\<close>,
  \<open>imed_postpro.threshold_predictions\<close> followed by \<open>.astype(np.uint8)\<close>, and
  \<open>dropout_input\<close>. The pipeline returns the stacked tensor, or \<open>None\<close>, and the
  list of metadata records.
\<close>

record 'w fetch_env =
  transform :: "slice_data list option \<Rightarrow> slice_meta list \<Rightarrow> string \<Rightarrow> 'w \<Rightarrow>
                (ndarray option \<times> slice_meta list) \<times> 'w"
  randint :: "int \<Rightarrow> int \<Rightarrow> 'w \<Rightarrow> int \<times> 'w"
  threshold_predictions :: "ndarray \<Rightarrow> real \<Rightarrow> ndarray"
  astype_uint8 :: "ndarray \<Rightarrow> ndarray"
  dropout_input :: "data_dict \<Rightarrow> 'w \<Rightarrow> data_dict \<times> 'w"

text \<open>
  Modelled from the spec: \<open>update_metadata\<close> of \<open>ivadomed.loader.tools.utils\<close> is not
  among the sources. The specification gives its policy: the keys that the source
  record defines override, the other keys of the destination are preserved; the
  destination list is returned. The record of source channel \<open>k\<close> is merged into
  destination channel \<open>k\<close>; an entry that is not a dict on either side leaves the
  destination entry as it is, as does a destination channel without a source channel.
\<close>

fun merge_meta :: "slice_meta \<Rightarrow> slice_meta \<Rightarrow> slice_meta" where
  "merge_meta (Meta src) (Meta dest) = Meta (AList.merge dest src)"
| "merge_meta _ dest = dest"

fun update_metadata :: "slice_meta list \<Rightarrow> slice_meta list \<Rightarrow> slice_meta list" where
  "update_metadata (s # ss) (d # ds) = merge_meta s d # update_metadata ss ds"
| "update_metadata _ ds = ds"

subsection \<open>Lines 186-190: the index lookup\<close>

text \<open>
  With patching the entry must be a patch dict (subscripting a tuple with a string
  raises \<open>TypeError\<close>) and names its handler; without, the entry is unpacked as a pair
  (unpacking a dict of five keys raises \<open>ValueError\<close>).
\<close>

definition resolve_entry ::
  "('p, 'f) dataset \<Rightarrow> int \<Rightarrow> error + (coord option \<times> pair_slice \<times> pair_slice)" where
  "resolve_entry self index =
     (if is_2d_patch self then
        bind (list_get (indexes self) index) (\<lambda>entry.
          case entry of
            Item _ \<Rightarrow> Inl TypeError
          | Patch c \<Rightarrow>
              bind (list_get (handlers self) (handler_index c)) (\<lambda>(seg, roi).
                Inr (Some c, seg, roi)))
      else
        bind (list_get (indexes self) index) (\<lambda>entry.
          case entry of
            Patch _ \<Rightarrow> Inl ValueError
          | Item (seg, roi) \<Rightarrow> Inr (None, seg, roi)))"

subsection \<open>Lines 193-200: several raters\<close>

text \<open>\<open>gt[idx_class][idx_rater]\<close> and \<open>gt_metadata[idx_class][idx_rater]\<close>.\<close>

definition rater_of :: "slice_data \<Rightarrow> int \<Rightarrow> error + slice_data" where
  "rater_of g idx_rater =
     (case g of
        Raters rs \<Rightarrow> bind (list_get rs idx_rater) (\<lambda>a. Inr (Arr a))
      | Arr a \<Rightarrow> bind (array_get a idx_rater) (\<lambda>b. Inr (Arr b)))"

definition rater_meta_of :: "slice_meta \<Rightarrow> int \<Rightarrow> error + slice_meta" where
  "rater_meta_of m idx_rater =
     (case m of
        RaterMetas ms \<Rightarrow> bind (list_get ms idx_rater) (\<lambda>d. Inr (Meta d))
      | Meta _ \<Rightarrow> Inl KeyError)"

text \<open>
  \<open>gt_metadata[idx_class]\<close> for the next class: \<open>None\<close> cannot be subscripted, and a
  list that has run out raises \<open>IndexError\<close>.
\<close>

definition next_meta :: "slice_meta list option \<Rightarrow> error + (slice_meta \<times> slice_meta list)" where
  "next_meta ms =
     (case ms of
        None \<Rightarrow> Inl TypeError
      | Some [] \<Rightarrow> Inl IndexError
      | Some (m # rest) \<Rightarrow> Inr (m, rest))"

text \<open>
  Lines 198-200: the loop over the classes, on the classes and metadata entries still
  to visit; each class replaces its ground truth first, then its metadata.
\<close>

fun rater_loop ::
  "int \<Rightarrow> slice_data list \<Rightarrow> slice_meta list option \<Rightarrow>
   error + (slice_data list \<times> slice_meta list option)" where
  "rater_loop idx_rater [] ms = Inr ([], ms)"
| "rater_loop idx_rater (g # gs) ms =
     bind (rater_of g idx_rater) (\<lambda>g'.
     bind (next_meta ms) (\<lambda>(m, rest).
     bind (rater_meta_of m idx_rater) (\<lambda>m'.
     bind (rater_loop idx_rater gs (Some rest)) (\<lambda>(gs', rest').
       Inr (g' # gs', map_option (\<lambda>r. m' # r) rest')))))"

text \<open>
  Lines 193-200. \<open>random.randint(0, n - 1)\<close> raises \<open>ValueError\<close> on an empty range.
\<close>

definition pick_rater ::
  "'w fetch_env \<Rightarrow> pair_slice \<Rightarrow> 'w \<times> event list \<Rightarrow> error + (pair_slice \<times> 'w \<times> event list)" where
  "pick_rater env seg st =
     (case gt seg of
        None \<Rightarrow> Inr (seg, st)
      | Some classes \<Rightarrow>
          bind (list_get classes 0) (\<lambda>first.
            case first of
              Arr _ \<Rightarrow> Inr (seg, st)
            | Raters rs \<Rightarrow>
                if int (length rs) - 1 < 0 then Inl ValueError
                else
                  let (idx_rater, w') = randint env 0 (int (length rs) - 1) (fst st);
                      log' = snd st @ [RandInt 0 (int (length rs) - 1) idx_rater]
                  in bind (rater_loop idx_rater classes (gt_metadata seg)) (\<lambda>(gs, ms).
                       Inr (seg\<lparr>gt := Some gs, gt_metadata := ms\<rparr>, w', log'))))"

subsection \<open>Lines 202-236: the transform calls\<close>

text \<open>One call of \<open>self.transform\<close>, logged with what it was given and what it returned.\<close>

definition call_transform ::
  "'w fetch_env \<Rightarrow> slice_data list option \<Rightarrow> slice_meta list \<Rightarrow> string \<Rightarrow> 'w \<times> event list \<Rightarrow>
   (ndarray option \<times> slice_meta list) \<times> 'w \<times> event list" where
  "call_transform env sample md data_type st =
     (let ((stack, md'), w') = transform env sample md data_type (fst st)
      in ((stack, md'), w', snd st @ [TransformCall data_type sample md md']))"

text \<open>The local variables that the transform calls leave behind.\<close>

record stacks =
  stack_input :: "ndarray option"
  stack_gt :: "ndarray option"
  stack_roi :: "ndarray option"
  metadata_input :: "slice_meta list"
  metadata_gt :: "slice_meta list"
  metadata_roi :: "slice_meta list"

text \<open>Lines 202-204: a missing metadata list counts as the empty list.\<close>

definition or_empty :: "'a list option \<Rightarrow> 'a list" where
  "or_empty ms = (case ms of None \<Rightarrow> [] | Some m \<Rightarrow> m)"

text \<open>
  Line 236, the classification label: \<open>seg_pair_slice["gt"][0]\<close> made a tensor of one
  element. \<open>None\<close> cannot be subscripted.
\<close>

definition classification_label :: "pair_slice \<Rightarrow> error + ndarray" where
  "classification_label seg =
     (case gt seg of
        None \<Rightarrow> Inl TypeError
      | Some g \<Rightarrow> bind (list_get g 0) from_numpy_expand1)"

definition run_transforms ::
  "'w fetch_env \<Rightarrow> ('p, 'f) dataset \<Rightarrow> pair_slice \<Rightarrow> pair_slice \<Rightarrow> 'w \<times> event list \<Rightarrow>
   error + (stacks \<times> 'w \<times> event list)" where
  "run_transforms env self seg roi st =
     (let md_input0 = map Meta (or_empty (input_metadata seg));
          md_roi0 = or_empty (gt_metadata roi);
          md_gt0 = or_empty (gt_metadata seg);
          ((s_roi, md_roi), st1) = call_transform env (gt roi) md_roi0 ''roi'' st;
          md_input1 = update_metadata md_roi md_input0;
          ((s_input, md_input), st2) =
             call_transform env (Some (map Arr (input seg))) md_input1 ''im'' st1;
          md_gt1 = update_metadata md_input md_gt0
      in if task self = ''segmentation'' then
           let ((s_gt, md_gt), st3) = call_transform env (gt seg) md_gt1 ''gt'' st2;
               s_gt' = (case s_gt of
                          None \<Rightarrow> None
                        | Some t \<Rightarrow>
                            if soft_gt self then Some t
                            else Some (astype_uint8 env (threshold_predictions env t (1 / 2))))
           in Inr (\<lparr>stack_input = s_input, stack_gt = s_gt', stack_roi = s_roi,
                     metadata_input = md_input, metadata_gt = md_gt, metadata_roi = md_roi\<rparr>,
                   st3)
         else
           bind (classification_label seg) (\<lambda>label.
             Inr (\<lparr>stack_input = s_input, stack_gt = Some label, stack_roi = s_roi,
                   metadata_input = md_input, metadata_gt = md_gt1, metadata_roi = md_roi\<rparr>,
                  st2)))"

subsection \<open>Lines 239-280: patch extraction\<close>

text \<open>
  Lines 243-244: \<open>metadata['coord'] = [...]\<close> in every input metadata dict; an entry
  that is a list cannot take a string key (\<open>TypeError\<close>).
\<close>

fun set_coord :: "coord \<Rightarrow> slice_meta list \<Rightarrow> error + slice_meta list" where
  "set_coord c [] = Inr []"
| "set_coord c (Meta d # ms) =
     bind (set_coord c ms) (\<lambda>ms'.
       Inr (Meta (AList.update ''coord'' (IntList [x_min c, x_max c, y_min c, y_max c]) d) # ms'))"
| "set_coord c (RaterMetas _ # ms) = Inl TypeError"

text \<open>
  Lines 247-249: \<open>torch.zeros(stack.shape[0], shape_x, shape_y)\<close>. For the input the
  stack must be there (\<open>None\<close> has no \<open>shape\<close>); for ground truth and ROI \<open>None\<close>
  stays \<open>None\<close>.
\<close>

definition zeros_like_stack :: "ndarray \<Rightarrow> int \<Rightarrow> int \<Rightarrow> error + ndarray" where
  "zeros_like_stack t shape_x shape_y =
     bind (list_get (shape t) 0) (\<lambda>n. zeros [n, shape_x, shape_y])"

text \<open>
  Lines 255-258, 261-264, 267-270: \<open>for _ in range(len(stack))\<close> assigns the same
  cropped stack in every round, so the zeros stay only when the stack has no plane.
\<close>

definition crop_loop :: "ndarray \<Rightarrow> ndarray \<Rightarrow> coord \<Rightarrow> error + ndarray" where
  "crop_loop t z c =
     bind (tensor_len t) (\<lambda>n.
       if n \<le> 0 then Inr z else crop t (x_min c) (x_max c) (y_min c) (y_max c))"

definition zeros_optional :: "ndarray option \<Rightarrow> int \<Rightarrow> int \<Rightarrow> error + ndarray option" where
  "zeros_optional s shape_x shape_y =
     (case s of
        None \<Rightarrow> Inr None
      | Some t \<Rightarrow> bind (zeros_like_stack t shape_x shape_y) (\<lambda>z. Inr (Some z)))"

definition crop_optional :: "ndarray option \<Rightarrow> ndarray option \<Rightarrow> coord \<Rightarrow> error + ndarray option" where
  "crop_optional s z c =
     (case (s, z) of
        (Some t, Some z') \<Rightarrow> bind (crop_loop t z' c) (\<lambda>r. Inr (Some r))
      | _ \<Rightarrow> Inr z)"

text \<open>
  Lines 239-280. The three \<open>torch.zeros\<close> of the dict display run before the first
  crop.
\<close>

definition assemble :: "coord option \<Rightarrow> stacks \<Rightarrow> error + data_dict" where
  "assemble entry s =
     (case entry of
        None \<Rightarrow>
          Inr \<lparr>dd_input = stack_input s, dd_gt = stack_gt s, dd_roi = stack_roi s,
               dd_input_metadata = metadata_input s, dd_gt_metadata = metadata_gt s,
               dd_roi_metadata = metadata_roi s\<rparr>
      | Some c \<Rightarrow>
          (let shape_x = x_max c - x_min c; shape_y = y_max c - y_min c
           in bind (set_coord c (metadata_input s)) (\<lambda>md_input.
              case stack_input s of
                None \<Rightarrow> Inl AttributeError
              | Some t_input \<Rightarrow>
                  bind (zeros_like_stack t_input shape_x shape_y) (\<lambda>z_input.
                  bind (zeros_optional (stack_gt s) shape_x shape_y) (\<lambda>z_gt.
                  bind (zeros_optional (stack_roi s) shape_x shape_y) (\<lambda>z_roi.
                  bind (crop_loop t_input z_input c) (\<lambda>r_input.
                  bind (crop_optional (stack_gt s) z_gt c) (\<lambda>r_gt.
                  bind (crop_optional (stack_roi s) z_roi c) (\<lambda>r_roi.
                    Inr \<lparr>dd_input = Some r_input, dd_gt = r_gt, dd_roi = r_roi,
                         dd_input_metadata = md_input, dd_gt_metadata = metadata_gt s,
                         dd_roi_metadata = metadata_roi s\<rparr>)))))))))"

subsection \<open>\<open>__getitem__\<close>\<close>

text \<open>
  The fetch returns the sample together with the world it leaves and the log of its
  calls. Every fetch works on its own copy of the handler: the dataset is not changed.
\<close>

definition getitem ::
  "'w fetch_env \<Rightarrow> ('p, 'f) dataset \<Rightarrow> int \<Rightarrow> 'w \<Rightarrow> error + (data_dict \<times> 'w \<times> event list)" where
  "getitem env self index w =
     bind (resolve_entry self index) (\<lambda>(entry, seg0, roi).
     bind (pick_rater env seg0 (w, [])) (\<lambda>(seg, st1).
     bind (run_transforms env self seg roi st1) (\<lambda>(s, w2, log2).
     bind (assemble entry s) (\<lambda>d.
       if is_input_dropout self
       then (let (d', w3) = dropout_input env d w2 in Inr (d', w3, log2))
       else Inr (d, w2, log2)))))"

section \<open>The transforms of \<open>ivadomed/transforms.py\<close>\<close>

subsection \<open>Images and the library calls\<close>

text \<open>
  A single-band PIL image, as the rows of its integer pixel values; \<open>np.array(image)\<close>
  has the same rows, and \<open>.astype(np.int)\<close> changes nothing on them. \<open>image.size\<close> is
  the pair (width, height).
\<close>

type_synonym image = "int list list"

definition image_size :: "image \<Rightarrow> int \<times> int" where
  "image_size img = (case img of [] \<Rightarrow> (0, 0) | row # _ \<Rightarrow> (int (length row), int (length img)))"

text \<open>
  \<open>torchvision.transforms.functional.crop(img, top, left, height, width)\<close> is
  \<open>img.crop((left, top, left + width, top + height))\<close> (\<open>upper\<close> below is \<open>top\<close>): the result has the size asked
  for, and a pixel outside the image is 0.
\<close>

definition pixel_at :: "image \<Rightarrow> int \<Rightarrow> int \<Rightarrow> int" where
  "pixel_at img i j =
     (if 0 \<le> i \<and> i < int (length img) \<and> 0 \<le> j \<and> j < int (length (img ! nat i))
      then img ! nat i ! nat j else 0)"

definition F_crop :: "image \<Rightarrow> int \<Rightarrow> int \<Rightarrow> nat \<Rightarrow> nat \<Rightarrow> image" where
  "F_crop img upper left height width =
     map (\<lambda>r. map (\<lambda>c. pixel_at img (upper + int r) (left + int c)) [0..<width]) [0..<height]"

text \<open>
  \<open>int(round(p / q))\<close> for integers \<open>p\<close> and \<open>q > 0\<close>: Python rounds a half to the even
  neighbour.
\<close>

definition round_half_even :: "int \<Rightarrow> int \<Rightarrow> int" where
  "round_half_even p q =
     (let f = p div q; r = p mod q
      in if 2 * r < q then f else if q < 2 * r then f + 1 else if even f then f else f + 1)"

text \<open>
  \<open>scipy.ndimage.center_of_mass\<close> of a 2-dimensional array, then \<open>int(round(...))\<close> of
  both coordinates (lines 34-35), the row coordinate first. Each coordinate is a moment
  divided by the sum of the array. When the sum is zero the division gives an infinite
  value for a non-zero moment and \<open>nan\<close> for a zero one, and the first conversion,
  that of the row coordinate, raises: \<open>OverflowError\<close> on the infinite value,
  \<open>ValueError\<close> on \<open>nan\<close>.
\<close>

definition row_moment :: "image \<Rightarrow> int" where
  "row_moment img = sum_list (map (\<lambda>(i, row). int i * sum_list row) (enumerate 0 img))"

definition col_moment :: "image \<Rightarrow> int" where
  "col_moment img =
     sum_list (map (\<lambda>row. sum_list (map (\<lambda>(j, v). int j * v) (enumerate 0 row))) img)"

definition total_mass :: "image \<Rightarrow> int" where
  "total_mass img = sum_list (map sum_list img)"

definition rounded_center_of_mass :: "image \<Rightarrow> error + (int \<times> int)" where
  "rounded_center_of_mass img =
     (let m = total_mass img
      in if m = 0 then (if row_moment img = 0 then Inl ValueError else Inl OverflowError)
         else if 0 < m then Inr (round_half_even (row_moment img) m, round_half_even (col_moment img) m)
         else Inr (round_half_even (- row_moment img) (- m), round_half_even (- col_moment img) (- m)))"

subsection \<open>\<open>ROICrop2D\<close>\<close>

text \<open>
  The sample dict of a transform; \<open>None\<close> stands for a key that is not there (reading it
  raises \<open>KeyError\<close>).
\<close>

record sample =
  img_input :: image
  img_roi :: image
  img_gt :: "image option"
  img_input_metadata :: metadata
  img_gt_metadata :: "metadata option"

text \<open>The transform object: \<open>self.size\<close> is \<open>(th, tw)\<close>.\<close>

record ROICrop2D =
  crop_size :: "nat \<times> nat"
  labeled :: bool

text \<open>
  \<open>propagate_params\<close> is inherited from \<open>medicaltorch.transforms.CenterCrop2D\<close>: it
  stores the parameters in the input metadata under \<open>__centercrop\<close>.
\<close>

definition propagate_params :: "sample \<Rightarrow> int list \<Rightarrow> sample" where
  "propagate_params s params =
     s\<lparr>img_input_metadata := AList.update ''__centercrop'' (IntList params) (img_input_metadata s)\<rparr>"

text \<open>\<open>ROICrop2D.__call__\<close>, lines 24-56.\<close>

definition ROICrop2D_call :: "ROICrop2D \<Rightarrow> sample \<Rightarrow> error + sample" where
  "ROICrop2D_call self smp =
     (let input_data = img_input smp;
          roi_data = img_roi smp;
          (w, h) = image_size input_data;
          (th, tw) = crop_size self;
          th_half = round_half_even (int th) 2;
          tw_half = round_half_even (int tw) 2
      in bind (rounded_center_of_mass roi_data) (\<lambda>(x_roi, y_roi).
           let fh = y_roi - th_half;
               fw = x_roi - tw_half;
               params = [fh, fw, w, h];
               smp1 = propagate_params smp params;
               input_data' = F_crop input_data fh fw th tw
           in if labeled self then
                (case img_gt smp1 of
                   None \<Rightarrow> Inl KeyError
                 | Some gt_data \<Rightarrow>
                     (case img_gt_metadata smp1 of
                        None \<Rightarrow> Inl KeyError
                      | Some gt_meta \<Rightarrow>
                          let gt_data' = F_crop input_data' fh fw th tw;
                              gt_meta' = AList.update ''__centercrop'' (IntList [fh, fw, w, h]) gt_meta
                          in Inr (smp1\<lparr>img_input := input_data', img_gt := Some gt_data',
                                       img_gt_metadata := Some gt_meta'\<rparr>)))
              else Inr (smp1\<lparr>img_input := input_data'\<rparr>)))"

subsection \<open>\<open>DilateGT\<close>\<close>

record DilateGT =
  dil_factor :: real

text \<open>
  \<open>np.sum(np.array(arrays), axis=0)\<close> followed by \<open>np.clip\<close>: the elementwise sum of the
  arrays, clipped; of no array at all, the scalar 0.
\<close>

datatype summed = Scalar real | Summed "real list list"

fun add_rows :: "real list list \<Rightarrow> real list list \<Rightarrow> real list list" where
  "add_rows a b = map (\<lambda>(r, s). map (\<lambda>(x, y). x + y) (zip r s)) (zip a b)"

fun sum_clip :: "real list list list \<Rightarrow> summed" where
  "sum_clip [] = Scalar 0"
| "sum_clip (a # as) = Summed (map (map (\<lambda>v. min 1 (max 0 v))) (foldl add_rows a as))"

text \<open>
  Lines 98-108, the loop over the objects. Each round isolates its object (lines 99-100)
  and then reaches line 102, \<open>nb_it = int(round(dil_factor * math.sqrt(...)))\<close>. The
  module never imports \<open>math\<close>, so reading the name raises \<open>NameError\<close>: no round
  ever completes, and \<open>dilate_lesion\<close> is never called.
\<close>

fun dilate_objects ::
  "image \<Rightarrow> real \<Rightarrow> nat list \<Rightarrow> error + (real list list list \<times> real list list list)" where
  "dilate_objects arr_labeled factor [] = Inr ([], [])"
| "dilate_objects arr_labeled factor (obj_idx # rest) =
     (let arr_bin_obj = map (map (\<lambda>v. if v = int obj_idx then (1::int) else 0)) arr_labeled;
          arr_soft_obj = map (map real_of_int) arr_bin_obj
      in Inl NameError)"

text \<open>
  \<open>dilate_arr\<close>, lines 92-116. \<open>label\<close> is \<open>scipy.ndimage.label\<close>, which returns the
  labelled array and the number of objects.
\<close>

definition dilate_arr :: "(image \<Rightarrow> image \<times> nat) \<Rightarrow> image \<Rightarrow> real \<Rightarrow> error + (summed \<times> summed)" where
  "dilate_arr label arr factor =
     (let (arr_labeled, lb_nb) = label arr
      in bind (dilate_objects arr_labeled factor [1..<lb_nb + 1]) (\<lambda>(arr_bin_lst, arr_soft_lst).
           Inr (sum_clip arr_soft_lst, sum_clip arr_bin_lst)))"

text \<open>
  \<open>DilateGT.__call__\<close>, lines 158-179. What follows \<open>dilate_arr\<close> (\<open>random_holes\<close>,
  \<open>post_processing\<close> and the update of the sample, lines 166-177) is the parameter
  \<open>finish\<close>: it only runs when \<open>dilate_arr\<close> returns.
\<close>

definition DilateGT_call ::
  "(image \<Rightarrow> image \<times> nat) \<Rightarrow> (sample \<Rightarrow> summed \<Rightarrow> summed \<Rightarrow> error + sample) \<Rightarrow>
   DilateGT \<Rightarrow> sample \<Rightarrow> error + sample" where
  "DilateGT_call label finish self smp =
     (case img_gt smp of
        None \<Rightarrow> Inl KeyError
      | Some gt_data \<Rightarrow>
          if dil_factor self > 0 \<and> total_mass gt_data \<noteq> 0 then
            bind (dilate_arr label gt_data (dil_factor self)) (\<lambda>(gt_dil, gt_dil_bin).
              finish smp gt_dil gt_dil_bin)
          else Inr smp)"

section \<open>The words of the specification\<close>

text \<open>
  The candidate starts \<open>start, start + S, start + 2 S, \<dots>\<close> generated while
  \<open>start < bound\<close>. The generation only ends for a positive stride, which is what the
  guard \<open>0 < S\<close> says.
\<close>

function spec_candidates :: "int \<Rightarrow> int \<Rightarrow> int \<Rightarrow> int list" where
  "spec_candidates start bound S =
     (if 0 < S \<and> start < bound then start # spec_candidates (start + S) bound S else [])"
  by pat_completeness auto
termination
  by (relation "measure (\<lambda>(start, bound, S). nat (bound - start))") auto

declare spec_candidates.simps [simp del]

text \<open>
  The start sequence of one axis: candidates from 0 while \<open>start < sz - L + S\<close>, each
  one with \<open>start + L > sz\<close> replaced by \<open>sz - L\<close>.
\<close>

definition spec_starts :: "int \<Rightarrow> int \<Rightarrow> int \<Rightarrow> int list" where
  "spec_starts sz L S =
     map (\<lambda>start. if start + L > sz then sz - L else start) (spec_candidates 0 (sz - L + S) S)"

text \<open>One patch record per pair of starts, the \<open>x\<close> starts in the outer position.\<close>

definition spec_tiles :: "int \<Rightarrow> int \<Rightarrow> int \<Rightarrow> int \<Rightarrow> int \<Rightarrow> int \<Rightarrow> int \<Rightarrow> coord list" where
  "spec_tiles H W Lx Ly Sx Sy i =
     concat (map (\<lambda>x. map (\<lambda>y. \<lparr>x_min = x, x_max = x + Lx, y_min = y, y_max = y + Ly,
                                  handler_index = i\<rparr>) (spec_starts W Ly Sy))
                 (spec_starts H Lx Sx))"

text \<open>The shape \<open>prepare_indices\<close> reads from a handler: that of its first input array.\<close>

definition handler_shape :: "(pair_slice \<times> pair_slice) \<Rightarrow> int list" where
  "handler_shape h = (case input (fst h) of [] \<Rightarrow> [] | img # _ \<Rightarrow> shape img)"

text \<open>
  The build preconditions for one handler: a 2-dimensional shape \<open>[H, W]\<close> and, on each
  axis, \<open>0 < S \<le> L \<le> size\<close>.
\<close>

definition tiling_ok :: "int list \<Rightarrow> int list \<Rightarrow> (pair_slice \<times> pair_slice) \<Rightarrow> bool" where
  "tiling_ok lens strides h =
     (case (lens, strides, input (fst h)) of
        ([Lx, Ly], [Sx, Sy], img # _) \<Rightarrow>
          (case shape img of
             [H, W] \<Rightarrow> 0 < Sx \<and> Sx \<le> Lx \<and> Lx \<le> H \<and> 0 < Sy \<and> Sy \<le> Ly \<and> Ly \<le> W
           | _ \<Rightarrow> False)
      | _ \<Rightarrow> False)"

text \<open>The invariants of a patch record against the patch length and the handler shape.\<close>

definition window_ok :: "int list \<Rightarrow> int list \<Rightarrow> coord \<Rightarrow> bool" where
  "window_ok lens shp c =
     (x_max c - x_min c = lens ! 0 \<and> y_max c - y_min c = lens ! 1 \<and>
      0 \<le> x_min c \<and> x_max c \<le> shp ! 0 \<and> 0 \<le> y_min c \<and> y_max c \<le> shp ! 1)"

text \<open>Pixel \<open>(px, py)\<close> lies in the window of a patch record.\<close>

definition covers :: "coord \<Rightarrow> int \<Rightarrow> int \<Rightarrow> bool" where
  "covers c px py = (x_min c \<le> px \<and> px < x_max c \<and> y_min c \<le> py \<and> py < y_max c)"

text \<open>A handler whose first input array is 2-dimensional.\<close>

definition handler_2d :: "(pair_slice \<times> pair_slice) \<Rightarrow> bool" where
  "handler_2d h = (input (fst h) \<noteq> [] \<and> length (handler_shape h) = 2)"

text \<open>
  The configuration errors of the specification: length or stride not 2-dimensional,
  a stride component not positive or above the length component, a length component
  above the shape component of some handler.
\<close>

definition config_error :: "int list \<Rightarrow> int list \<Rightarrow> (pair_slice \<times> pair_slice) list \<Rightarrow> bool" where
  "config_error lens strides hs =
     (length lens \<noteq> 2 \<or> length strides \<noteq> 2 \<or>
      list_ex (\<lambda>k. strides ! k \<le> 0 \<or> strides ! k > lens ! k) [0, 1] \<or>
      list_ex (\<lambda>h. list_ex (\<lambda>k. lens ! k > handler_shape h ! k) [0, 1]) hs)"

text \<open>The tiles of handler \<open>i\<close>, and the whole index in handler order.\<close>

definition spec_handler_tiles :: "int list \<Rightarrow> int list \<Rightarrow> int \<Rightarrow> (pair_slice \<times> pair_slice) \<Rightarrow> coord list" where
  "spec_handler_tiles lens strides i h =
     spec_tiles (handler_shape h ! 0) (handler_shape h ! 1) (lens ! 0) (lens ! 1)
       (strides ! 0) (strides ! 1) i"

definition spec_index :: "int list \<Rightarrow> int list \<Rightarrow> (pair_slice \<times> pair_slice) list \<Rightarrow> coord list" where
  "spec_index lens strides hs =
     concat (map (\<lambda>(j, h). spec_handler_tiles lens strides (int j) h) (enumerate 0 hs))"

text \<open>The \<open>x\<close> starts of the patch records of an index, in index order.\<close>

definition x_starts :: "index_entry list \<Rightarrow> int list" where
  "x_starts es = concat (map (\<lambda>e. case e of Patch c \<Rightarrow> [x_min c] | Item _ \<Rightarrow> []) es)"

text \<open>The \<open>x\<close> starts that \<open>prepare_indices\<close> emits, or \<open>None\<close> when it raises.\<close>

definition built_x_starts :: "('p, 'f) dataset \<Rightarrow> int list option" where
  "built_x_starts self =
     (case prepare_indices self of Inl _ \<Rightarrow> None | Inr self' \<Rightarrow> Some (x_starts (indexes self')))"

text \<open>The transform calls of a log, and its draws of \<open>random.randint\<close>, in order.\<close>

definition transform_calls :: "event list \<Rightarrow> event list" where
  "transform_calls evs = filter (\<lambda>e. case e of TransformCall _ _ _ _ \<Rightarrow> True | RandInt _ _ _ \<Rightarrow> False) evs"


text \<open>
  What slicing leaves of the window \<open>[x_min:x_max, y_min:y_max]\<close> on a tensor of shape
  \<open>(C, H, W)\<close>: the window clipped to the tensor.
\<close>

definition clipped_shape :: "coord \<Rightarrow> ndarray \<Rightarrow> int list" where
  "clipped_shape c t =
     (case shape t of
        [C, H, W] \<Rightarrow> [C, min (x_max c) H - min (x_min c) H, min (y_max c) W - min (y_min c) W]
      | _ \<Rightarrow> [])"

text \<open>A stack that is absent, or has one plane or more of a 2-dimensional image.\<close>

definition planes_or_none :: "ndarray option \<Rightarrow> bool" where
  "planes_or_none s =
     (case s of
        None \<Rightarrow> True
      | Some t \<Rightarrow> (case shape t of [C, H, W] \<Rightarrow> 0 < C \<and> 0 \<le> H \<and> 0 \<le> W | _ \<Rightarrow> False))"

definition is_dict :: "slice_meta \<Rightarrow> bool" where
  "is_dict m = (case m of Meta _ \<Rightarrow> True | RaterMetas _ \<Rightarrow> False)"

text \<open>
  The bundle that an index entry stands for. Without patching it is the entry itself;
  with patching it is the handler that the patch record names, together with the
  record. An entry of the other kind, or a record that names no handler, stands for
  none.
\<close>

definition entry_bundle ::
  "('p, 'f) dataset \<Rightarrow> index_entry \<Rightarrow> (coord option \<times> pair_slice \<times> pair_slice) option" where
  "entry_bundle self e =
     (case e of
        Item (seg, roi) \<Rightarrow> if is_2d_patch self then None else Some (None, seg, roi)
      | Patch c \<Rightarrow>
          if is_2d_patch self \<and> 0 \<le> handler_index c \<and>
             handler_index c < int (length (handlers self))
          then (case handlers self ! nat (handler_index c) of
                  (seg, roi) \<Rightarrow> Some (Some c, seg, roi))
          else None)"

text \<open>
  A ground truth that the rater choice can work on: absent; or one array per class (one
  rater); or, per class, a list of rater arrays and a list of rater metadata, each at
  least as long as the rater list of the first class, which is not empty, with a draw
  of \<open>random.randint\<close> that honours its bounds.
\<close>

definition rated_by :: "nat \<Rightarrow> slice_data \<Rightarrow> bool" where
  "rated_by n g = (case g of Raters rs \<Rightarrow> n \<le> length rs | Arr _ \<Rightarrow> False)"

definition rated_meta_by :: "nat \<Rightarrow> slice_meta \<Rightarrow> bool" where
  "rated_meta_by n m = (case m of RaterMetas ms \<Rightarrow> n \<le> length ms | Meta _ \<Rightarrow> False)"

definition raters_ok :: "'w fetch_env \<Rightarrow> 'w \<Rightarrow> pair_slice \<Rightarrow> bool" where
  "raters_ok env w seg =
     (case gt seg of
        None \<Rightarrow> True
      | Some [] \<Rightarrow> False
      | Some (Arr _ # _) \<Rightarrow> True
      | Some (Raters rs # rest) \<Rightarrow>
          rs \<noteq> [] \<and>
          0 \<le> fst (randint env 0 (int (length rs) - 1) w) \<and>
          fst (randint env 0 (int (length rs) - 1) w) \<le> int (length rs) - 1 \<and>
          list_all (rated_by (length rs)) rest \<and>
          (case gt_metadata seg of
             None \<Rightarrow> False
           | Some ms \<Rightarrow> length ms = Suc (length rest) \<and> list_all (rated_meta_by (length rs)) ms))"

text \<open>A label of the classification task: the first class is an array of one element.\<close>

definition scalar_label :: "pair_slice \<Rightarrow> bool" where
  "scalar_label seg =
     (case gt seg of
        Some (Arr a # _) \<Rightarrow> shape a = [] \<or> shape a = [1]
      | _ \<Rightarrow> False)"

text \<open>A window as index building emits it: \<open>0 \<le> x_min \<le> x_max\<close>, \<open>0 \<le> y_min \<le> y_max\<close>.\<close>

definition ordered_window :: "coord \<Rightarrow> bool" where
  "ordered_window c = (0 \<le> x_min c \<and> x_min c \<le> x_max c \<and> 0 \<le> y_min c \<and> y_min c \<le> y_max c)"

text \<open>
  What the transform calls leave behind when the pipeline returns images: an input
  stack, every stack that is there of one plane or more, every input metadata record a
  dict.
\<close>

definition image_stacks :: "stacks \<Rightarrow> bool" where
  "image_stacks s =
     (stack_input s \<noteq> None \<and> planes_or_none (stack_input s) \<and> planes_or_none (stack_gt s) \<and>
      planes_or_none (stack_roi s) \<and> list_all is_dict (metadata_input s))"

text \<open>
  Step 7 of the fetch on the ground-truth stack: without soft labels the stack is
  binarized at the threshold 0.5; an absent stack stays absent.
\<close>

definition binarized :: "'w fetch_env \<Rightarrow> bool \<Rightarrow> ndarray option \<Rightarrow> ndarray option" where
  "binarized env soft s =
     (case s of
        None \<Rightarrow> None
      | Some t \<Rightarrow> if soft then Some t else Some (astype_uint8 env (threshold_predictions env t (1 / 2))))"

section \<open>Concrete inputs\<close>

text \<open>A slice bundle with one all-zero input array of shape \<open>(H, W)\<close> and no ground truth.\<close>

definition zero_slice :: "int \<Rightarrow> int \<Rightarrow> pair_slice" where
  "zero_slice H W =
     \<lparr>input = [\<lparr>shape = [H, W], voxels = replicate (nat (H * W)) 0\<rparr>], gt = None,
      input_metadata = Some [[]], gt_metadata = None\<rparr>"

text \<open>
  A dataset as \<open>__init__\<close> leaves it for one filename pair with one input file and the
  given \<open>length\<close> and \<open>stride\<close>, with the given handlers already loaded.
\<close>

definition patch_dataset ::
  "int list \<Rightarrow> int list \<Rightarrow> (pair_slice \<times> pair_slice) list \<Rightarrow> (unit, unit) dataset" where
  "patch_dataset lens strides hs =
     \<lparr>indexes = [], handlers = hs, filename_pairs = [([''sub-01_T1w.nii.gz''], ())],
      length_2D = lens, stride_2D = strides, is_2d_patch = (lens \<noteq> []),
      prepro_transforms = (), cache = True, slice_axis = 2, n_contrasts = 1,
      roi_thr = None, slice_filter_roi = False, soft_gt = False, has_bounding_box = True,
      task = ''segmentation'', is_input_dropout = False\<rparr>"

text \<open>A load environment with two slices per pair whose slice filter rejects every slice.\<close>

definition reject_all_env :: "(unit, unit, unit) load_env" where
  "reject_all_env =
     \<lparr>segmentation_pairs = (\<lambda>_ _. ((), ())), n_slices = (\<lambda>_. 2),
      get_pair_slice = (\<lambda>_ _ _. zero_slice 10 10), verify_metadata = (\<lambda>_ b. b),
      adjust_transforms = (\<lambda>p _. p), slice_filter_fn = Some (\<lambda>_. False),
      filter_roi = (\<lambda>_ _. False)\<rparr>"

text \<open>
  A fetch environment with a deterministic pipeline: the transform stacks the arrays of
  the sample into one tensor and returns the metadata as given, \<open>randint\<close> returns its
  upper bound, thresholding maps a value below the threshold to 0 and any other to 1, and
  dropout changes nothing. The world is trivial.
\<close>

definition stack_arrays :: "slice_data list option \<Rightarrow> ndarray option" where
  "stack_arrays sample =
     (case sample of
        Some (Arr a # rest) \<Rightarrow>
          Some \<lparr>shape = (1 + int (length rest)) # shape a,
                voxels = concat (map (\<lambda>x. case x of Arr b \<Rightarrow> voxels b | Raters _ \<Rightarrow> [])
                                     (Arr a # rest))\<rparr>
      | _ \<Rightarrow> None)"

definition stacking_env :: "unit fetch_env" where
  "stacking_env =
     \<lparr>transform = (\<lambda>sample md data_type w. ((stack_arrays sample, md), w)),
      randint = (\<lambda>a b w. (b, w)),
      threshold_predictions = (\<lambda>t thr. t\<lparr>voxels := map (\<lambda>v. if v < thr then 0 else 1) (voxels t)\<rparr>),
      astype_uint8 = (\<lambda>t. t),
      dropout_input = (\<lambda>d w. (d, w))\<rparr>"

text \<open>
  The same environment with a pipeline that resamples every sample to 2 by 2 pixels, as
  a resolution-changing transform does.
\<close>

definition resampling_env :: "unit fetch_env" where
  "resampling_env =
     stacking_env\<lparr>transform := (\<lambda>sample md data_type w.
       (((case sample of
            None \<Rightarrow> None
          | Some xs \<Rightarrow> Some \<lparr>shape = [int (length xs), 2, 2],
                              voxels = replicate (length xs * 4) 0\<rparr>), md), w))\<rparr>"

text \<open>
  The stacking environment with a pipeline that writes into the metadata: every call
  records its data type under the key \<open>seen_by\<close> of every metadata dict, as a transform
  records its parameters.
\<close>

definition tagging_env :: "unit fetch_env" where
  "tagging_env =
     stacking_env\<lparr>transform := (\<lambda>sample md data_type w.
       ((stack_arrays sample,
         map (\<lambda>m. case m of
                     Meta d \<Rightarrow> Meta (AList.update ''seen_by'' (Str data_type) d)
                   | RaterMetas ms \<Rightarrow> RaterMetas ms) md), w))\<rparr>"

text \<open>A dataset without patching that holds the given slice bundles.\<close>

definition slice_dataset :: "(pair_slice \<times> pair_slice) list \<Rightarrow> (unit, unit) dataset" where
  "slice_dataset items = (patch_dataset [] [] [])\<lparr>indexes := map Item items\<rparr>"

text \<open>
  A 1 by 1 array holding one value, and a bundle with two label classes annotated by two
  raters each; the arrays of rater \<open>k\<close> hold the sentinel value \<open>k\<close> in both classes.
\<close>

definition pixel :: "real \<Rightarrow> ndarray" where
  "pixel v = \<lparr>shape = [1, 1], voxels = [v]\<rparr>"

definition two_rater_slice :: pair_slice where
  "two_rater_slice =
     \<lparr>input = [pixel 7],
      gt = Some [Raters [pixel 0, pixel 1], Raters [pixel 0, pixel 1]],
      input_metadata = Some [[]],
      gt_metadata = Some [RaterMetas [[(''rater'', Str ''r0'')], [(''rater'', Str ''r1'')]],
                          RaterMetas [[(''rater'', Str ''r0'')], [(''rater'', Str ''r1'')]]]\<rparr>"

text \<open>
  A slice bundle and its ROI bundle with metadata: the ROI metadata carries crop
  parameters, the input metadata an older value for the same key and the contrast.
\<close>

definition roi_crop_item :: "pair_slice \<times> pair_slice" where
  "roi_crop_item =
     (\<lparr>input = [pixel 7], gt = Some [Arr (pixel 1)],
       input_metadata = Some [[(''crop_params'', IntList [0, 0]), (''contrast'', Str ''T1w'')]],
       gt_metadata = Some [Meta [(''gt_file'', Str ''lesion'')]]\<rparr>,
      \<lparr>input = [pixel 7], gt = Some [Arr (pixel 1)],
       input_metadata = Some [[]],
       gt_metadata = Some [Meta [(''crop_params'', IntList [1, 2])]]\<rparr>)"

text \<open>
  The dataset that \<open>prepare_indices\<close> builds from one handler of shape \<open>(4, 4)\<close> with
  length \<open>[4, 4]\<close> and stride \<open>[4, 4]\<close>: one patch, the whole slice.
\<close>

definition one_patch_dataset :: "(unit, unit) dataset" where
  "one_patch_dataset =
     (patch_dataset [4, 4] [4, 4] [(zero_slice 4 4, zero_slice 4 4)])
       \<lparr>indexes := [Patch \<lparr>x_min = 0, x_max = 4, y_min = 0, y_max = 4, handler_index = 0\<rparr>]\<rparr>"

text \<open>
  The stacks a resampling pipeline leaves for one input plane of 2 by 2 pixels, with no
  ground truth and no ROI.
\<close>

definition small_stacks :: stacks where
  "small_stacks =
     \<lparr>stack_input = Some \<lparr>shape = [1, 2, 2], voxels = [0, 0, 0, 0]\<rparr>, stack_gt = None,
      stack_roi = None, metadata_input = [Meta []], metadata_gt = [], metadata_roi = []\<rparr>"

text \<open>The window of the one patch of \<open>one_patch_dataset\<close>.\<close>

definition full_window :: coord where
  "full_window = \<lparr>x_min = 0, x_max = 4, y_min = 0, y_max = 4, handler_index = 0\<rparr>"

text \<open>
  A 4 by 4 sample: the input holds the numbers 1 to 16, the ROI is the single pixel
  \<open>(2, 2)\<close>, the ground truth is the 2 by 2 square in the middle.
\<close>

definition square_sample :: sample where
  "square_sample =
     \<lparr>img_input = [[1, 2, 3, 4], [5, 6, 7, 8], [9, 10, 11, 12], [13, 14, 15, 16]],
      img_roi = [[0, 0, 0, 0], [0, 0, 0, 0], [0, 0, 1, 0], [0, 0, 0, 0]],
      img_gt = Some [[0, 0, 0, 0], [0, 1, 1, 0], [0, 1, 1, 0], [0, 0, 0, 0]],
      img_input_metadata = [], img_gt_metadata = Some []\<rparr>"

text \<open>A sample whose ground truth is one foreground pixel, and its labelling: one object.\<close>

definition dot_sample :: sample where
  "dot_sample =
     \<lparr>img_input = [[5]], img_roi = [[1]], img_gt = Some [[1]],
      img_input_metadata = [], img_gt_metadata = Some []\<rparr>"

definition dot_label :: "image \<Rightarrow> image \<times> nat" where
  "dot_label arr = (arr, if total_mass arr = 0 then 0 else 1)"

text \<open>
  A patch dataset whose one handler is the bundle of two classes and two raters, with
  the one patch that covers its 1 by 1 slice.
\<close>

definition two_rater_patch_dataset :: "(unit, unit) dataset" where
  "two_rater_patch_dataset =
     (patch_dataset [1, 1] [1, 1] [(two_rater_slice, zero_slice 1 1)])
       \<lparr>indexes := [Patch \<lparr>x_min = 0, x_max = 1, y_min = 0, y_max = 1, handler_index = 0\<rparr>]\<rparr>"

text \<open>
  A patch dataset for the classification task: one handler whose label is a
  0-dimensional array, and the one patch that covers its 4 by 4 slice.
\<close>

definition classification_patch_dataset :: "(unit, unit) dataset" where
  "classification_patch_dataset =
     (patch_dataset [4, 4] [4, 4]
        [((zero_slice 4 4)\<lparr>gt := Some [Arr \<lparr>shape = [], voxels = [1]\<rparr>]\<rparr>, zero_slice 4 4)])
       \<lparr>indexes := [Patch \<lparr>x_min = 0, x_max = 4, y_min = 0, y_max = 4, handler_index = 0\<rparr>],
        task := ''classification''\<rparr>"

section \<open>Properties of index building\<close>

lemma bind_simps [simp]: "bind (Inl e) f = Inl e" "bind (Inr v) f = f v"
  by (simp_all add: bind_def)

lemma range_len_step:
  assumes "0 < S" "start < stop"
  shows "range_len start stop S = Suc (range_len (start + S) stop S)"
proof (cases "start + S < stop")
  case True
  have "(stop - start - 1) div S = (stop - (start + S) - 1) div S + 1"
  proof -
    have "stop - start - 1 = (stop - (start + S) - 1) + S" by simp
    then show ?thesis using assms(1) by (metis div_add_self2 less_irrefl)
  qed
  moreover have "0 \<le> (stop - (start + S) - 1) div S"
    using True assms(1) by (simp add: pos_imp_zdiv_nonneg_iff)
  ultimately show ?thesis using assms True by (simp add: range_len_def nat_add_distrib)
next
  case False
  then have "(stop - start - 1) div S = 0" using assms by simp
  then show ?thesis using assms False by (simp add: range_len_def)
qed

text \<open>Python's \<open>range\<close> with a positive step is the generation loop of the specification.\<close>

lemma py_range_candidates:
  "0 < S \<Longrightarrow> py_range start stop S = Inr (spec_candidates start stop S)"
proof (induction start stop S rule: spec_candidates.induct)
  case (1 start bound S)
  show ?case
  proof (cases "start < bound")
    case True
    from 1 True have IH: "py_range (start + S) bound S = Inr (spec_candidates (start + S) bound S)"
      by simp
    have "map (\<lambda>i. start + int i * S) [0..<Suc (range_len (start + S) bound S)]
          = start # map (\<lambda>i. (start + S) + int i * S) [0..<range_len (start + S) bound S]"
      by (simp add: upt_conv_Cons map_Suc_upt [symmetric] algebra_simps del: upt_Suc)
    then show ?thesis
      using IH 1(2) True
      by (simp add: py_range_def range_len_step spec_candidates.simps [of start] del: upt_Suc)
  next
    case False
    then show ?thesis using 1(2)
      by (simp add: py_range_def range_len_def spec_candidates.simps [of start])
  qed
qed

lemma list_get_simps [simp]:
  "list_get (x # xs) 0 = Inr x"
  "list_get (x # y # xs) 1 = Inr y"
  "list_get [] i = Inl IndexError"
  by (simp_all add: list_get_def)

lemma y_loop_starts:
  assumes "0 < Sy"
  shows "y_loop [Lx, Ly] [Sx, Sy] [H, W] i x =
           Inr (map (\<lambda>y. \<lparr>x_min = x, x_max = x + Lx, y_min = y, y_max = y + Ly,
                          handler_index = i\<rparr>) (spec_starts W Ly Sy))"
  using assms
  by (simp add: y_loop_def py_range_candidates spec_starts_def clamp_start_def Let_def comp_def)

lemma x_loop_starts:
  assumes "0 < Sy"
  shows "x_loop [Lx, Ly] [Sx, Sy] [H, W] i xs =
           Inr (concat (map (\<lambda>x. map (\<lambda>y. \<lparr>x_min = clamp_start x Lx H,
                          x_max = clamp_start x Lx H + Lx, y_min = y, y_max = y + Ly,
                          handler_index = i\<rparr>) (spec_starts W Ly Sy)) xs))"
  by (induction xs) (simp_all add: y_loop_starts [OF assms])

lemma check_dims_ok:
  "check_dims [Lx, Ly] [Sx, Sy] [H, W] = Inr () \<longleftrightarrow>
     (0 < Sx \<and> Sx \<le> Lx \<and> Lx \<le> H \<and> 0 < Sy \<and> Sy \<le> Ly \<and> Ly \<le> W)"
  by auto

lemma handler_patches_tiles:
  assumes "tiling_ok lens strides h"
  shows "\<exists>Lx Ly Sx Sy H W. lens = [Lx, Ly] \<and> strides = [Sx, Sy] \<and> handler_shape h = [H, W] \<and>
           handler_patches lens strides i h = Inr (spec_tiles H W Lx Ly Sx Sy i)"
  using assms
  by (auto simp: tiling_ok_def handler_shape_def handler_patches_def spec_tiles_def
      x_loop_starts py_range_candidates spec_starts_def clamp_start_def comp_def
      split: list.splits)

lemma candidates_bounds:
  "s \<in> set (spec_candidates start bound S) \<Longrightarrow> start \<le> s \<and> s < bound"
proof (induction start bound S rule: spec_candidates.induct)
  case (1 start bound S)
  show ?case
  proof (cases "0 < S \<and> start < bound")
    case True
    with 1 show ?thesis
      by (auto simp: spec_candidates.simps [of start])
  next
    case False
    with 1(2) show ?thesis by (simp add: spec_candidates.simps [of start])
  qed
qed

lemma candidates_member:
  "0 < S \<Longrightarrow> start + int k * S < bound \<Longrightarrow> start + int k * S \<in> set (spec_candidates start bound S)"
proof (induction k arbitrary: start)
  case 0
  then show ?case by (simp add: spec_candidates.simps [of start])
next
  case (Suc k)
  have lt: "start < bound"
  proof -
    have "0 \<le> int (Suc k) * S" using Suc.prems(1) by simp
    then show ?thesis using Suc.prems(2) by linarith
  qed
  have "(start + S) + int k * S < bound" using Suc.prems(2) by (simp add: algebra_simps)
  then have "(start + S) + int k * S \<in> set (spec_candidates (start + S) bound S)"
    using Suc.IH [of "start + S"] Suc.prems(1) by simp
  moreover have "(start + S) + int k * S = start + int (Suc k) * S" by (simp add: algebra_simps)
  ultimately show ?case using Suc.prems(1) lt by (simp add: spec_candidates.simps [of start])
qed

lemma starts_inside:
  assumes "L \<le> sz" "s \<in> set (spec_starts sz L S)"
  shows "0 \<le> s \<and> s + L \<le> sz"
  using assms by (auto simp: spec_starts_def dest: candidates_bounds split: if_splits)

lemma starts_flush:
  assumes "0 < S" "L \<le> sz"
  shows "sz - L \<in> set (spec_starts sz L S)"
proof -
  define m where "m = nat ((sz - L + S - 1) div S)"
  have nn: "0 \<le> (sz - L + S - 1) div S"
    using assms by (simp add: pos_imp_zdiv_nonneg_iff)
  then have mS: "int m * S = S * ((sz - L + S - 1) div S)" by (simp add: m_def)
  have eq: "sz - L + S - 1 = S * ((sz - L + S - 1) div S) + (sz - L + S - 1) mod S" by simp
  have md: "0 \<le> (sz - L + S - 1) mod S" "(sz - L + S - 1) mod S < S"
    using assms(1) by simp_all
  have lo: "sz - L \<le> int m * S" using eq md mS by linarith
  have hi: "int m * S < sz - L + S" using eq md mS by linarith
  have "0 + int m * S \<in> set (spec_candidates 0 (sz - L + S) S)"
    using candidates_member [OF assms(1), of 0 m "sz - L + S"] hi by simp
  then have mem: "int m * S \<in> set (spec_candidates 0 (sz - L + S) S)" by simp
  define f where "f = (\<lambda>start. if start + L > sz then sz - L else start)"
  have "f (int m * S) \<in> f ` set (spec_candidates 0 (sz - L + S) S)" using mem by (rule imageI)
  moreover have "f (int m * S) = sz - L" using lo by (simp add: f_def)
  moreover have "spec_starts sz L S = map f (spec_candidates 0 (sz - L + S) S)"
    by (simp add: spec_starts_def f_def)
  ultimately show ?thesis by simp
qed

lemma starts_cover:
  assumes "0 < S" "S \<le> L" "L \<le> sz" "0 \<le> p" "p < sz"
  shows "\<exists>s \<in> set (spec_starts sz L S). s \<le> p \<and> p < s + L"
proof -
  define k where "k = nat (p div S)"
  have nn: "0 \<le> p div S" using assms by (simp add: pos_imp_zdiv_nonneg_iff)
  then have kS: "int k * S = S * (p div S)" by (simp add: k_def)
  have eq: "p = S * (p div S) + p mod S" by simp
  have md: "0 \<le> p mod S" "p mod S < S" using assms(1) by simp_all
  have lo: "int k * S \<le> p" using eq md kS by linarith
  have hi: "p < int k * S + S" using eq md kS by linarith
  show ?thesis
  proof (cases "int k * S + L \<le> sz")
    case True
    then have "0 + int k * S < sz - L + S" using assms(1) by linarith
    then have "0 + int k * S \<in> set (spec_candidates 0 (sz - L + S) S)"
      by (rule candidates_member [OF assms(1)])
    then have mem: "int k * S \<in> set (spec_candidates 0 (sz - L + S) S)" by simp
    define f where "f = (\<lambda>start. if start + L > sz then sz - L else start)"
    have "f (int k * S) \<in> f ` set (spec_candidates 0 (sz - L + S) S)" using mem by (rule imageI)
    moreover have "f (int k * S) = int k * S" using True by (simp add: f_def)
    moreover have "spec_starts sz L S = map f (spec_candidates 0 (sz - L + S) S)"
      by (simp add: spec_starts_def f_def)
    ultimately have "int k * S \<in> set (spec_starts sz L S)" by simp
    moreover have "int k * S \<le> p \<and> p < int k * S + L" using lo hi assms(2) by linarith
    ultimately show ?thesis by blast
  next
    case False
    have "sz - L \<in> set (spec_starts sz L S)" using assms by (intro starts_flush) auto
    moreover have "sz - L \<le> p \<and> p < (sz - L) + L" using False lo assms(5) by linarith
    ultimately show ?thesis by blast
  qed
qed

lemma prepare_loop_sound:
  "prepare_loop lens strides k hs = Inr cs \<Longrightarrow> c \<in> set cs \<Longrightarrow>
     \<exists>j t. j < length hs \<and> handler_patches lens strides (int (k + j)) (hs ! j) = Inr t \<and> c \<in> set t"
proof (induction hs arbitrary: k cs)
  case Nil
  then show ?case by simp
next
  case (Cons h hs)
  from Cons.prems(1) obtain t rest where
    t: "handler_patches lens strides (int k) h = Inr t" and
    rest: "prepare_loop lens strides (Suc k) hs = Inr rest" and cs: "cs = t @ rest"
    by (auto simp: bind_def split: sum.splits)
  from Cons.prems(2) cs consider "c \<in> set t" | "c \<in> set rest" by auto
  then show ?case
  proof cases
    case 1
    with t have "0 < length (h # hs) \<and> handler_patches lens strides (int (k + 0)) ((h # hs) ! 0) = Inr t \<and> c \<in> set t"
      by simp
    then show ?thesis by blast
  next
    case 2
    from Cons.IH [OF rest 2] obtain j t' where
      "j < length hs" "handler_patches lens strides (int (Suc k + j)) (hs ! j) = Inr t'" "c \<in> set t'"
      by blast
    then have "Suc j < length (h # hs) \<and> handler_patches lens strides (int (k + Suc j)) ((h # hs) ! Suc j) = Inr t' \<and> c \<in> set t'"
      by simp
    then show ?thesis by blast
  qed
qed

lemma prepare_loop_complete:
  "prepare_loop lens strides k hs = Inr cs \<Longrightarrow> j < length hs \<Longrightarrow>
     handler_patches lens strides (int (k + j)) (hs ! j) = Inr t \<Longrightarrow> set t \<subseteq> set cs"
proof (induction hs arbitrary: k cs j)
  case Nil
  then show ?case by simp
next
  case (Cons h hs)
  from Cons.prems(1) obtain t0 rest where
    t0: "handler_patches lens strides (int k) h = Inr t0" and
    rest: "prepare_loop lens strides (Suc k) hs = Inr rest" and cs: "cs = t0 @ rest"
    by (auto simp: bind_def split: sum.splits)
  show ?case
  proof (cases j)
    case 0
    with Cons.prems(3) t0 cs show ?thesis by simp
  next
    case (Suc j')
    with Cons.prems have "j' < length hs"
      "handler_patches lens strides (int (Suc k + j')) (hs ! j') = Inr t" by simp_all
    from Cons.IH [OF rest this] cs show ?thesis by auto
  qed
qed

lemma prepare_loop_succeeds:
  "\<forall>h \<in> set hs. tiling_ok lens strides h \<Longrightarrow> \<exists>cs. prepare_loop lens strides k hs = Inr cs"
proof (induction hs arbitrary: k)
  case Nil
  then show ?case by simp
next
  case (Cons h hs)
  then have "tiling_ok lens strides h" by simp
  from handler_patches_tiles [OF this, of "int k"] obtain t where
    "handler_patches lens strides (int k) h = Inr t" by blast
  moreover from Cons obtain rest where "prepare_loop lens strides (Suc k) hs = Inr rest"
    by fastforce
  ultimately show ?case by simp
qed

lemma tiles_member:
  "c \<in> set (spec_tiles H W Lx Ly Sx Sy i) \<longleftrightarrow>
     (\<exists>x \<in> set (spec_starts H Lx Sx). \<exists>y \<in> set (spec_starts W Ly Sy).
        c = \<lparr>x_min = x, x_max = x + Lx, y_min = y, y_max = y + Ly, handler_index = i\<rparr>)"
  by (auto simp: spec_tiles_def)

text \<open>
  The concrete datasets used below are what \<open>__init__\<close> builds for one filename pair
  with one input file, before any slice is loaded.
\<close>

lemma init_patch_dataset:
  "init [([''sub-01_T1w.nii.gz''], ())] (Some lens) (Some strides) 2 True (Some ())
      ''segmentation'' None False False = Inr (patch_dataset lens strides [])"
  by (simp add: init_def patch_dataset_def list_get_def)

lemma handler_patches_spec:
  assumes "tiling_ok lens strides h"
  shows "handler_patches lens strides i h = Inr (spec_handler_tiles lens strides i h)"
  using handler_patches_tiles [OF assms, of i]
  by (auto simp: spec_handler_tiles_def)

lemma prepare_loop_spec:
  "\<forall>h \<in> set hs. tiling_ok lens strides h \<Longrightarrow>
     prepare_loop lens strides k hs =
       Inr (concat (map (\<lambda>(j, h). spec_handler_tiles lens strides (int j) h) (enumerate k hs)))"
  by (induction hs arbitrary: k) (simp_all add: handler_patches_spec)

lemma spec_starts_10_4_3: "spec_starts 10 4 3 = [0, 3, 6]"
  by (simp add: spec_starts_def spec_candidates.simps)

lemma spec_starts_4_4_3: "spec_starts 4 4 3 = [0]"
  by (simp add: spec_starts_def spec_candidates.simps)

text \<open>
  The start sequence of an axis is strictly increasing, so it never repeats a start: the
  candidates increase, and a candidate that is moved back to \<open>sz - L\<close> still lies
  after its predecessor, which is more than a stride below the bound.
\<close>

lemma clamped_candidates_increasing:
  "sorted_wrt (<) (map (\<lambda>s. if s + L > sz then sz - L else s) (spec_candidates start (sz - L + S) S))"
proof -
  define f where "f = (\<lambda>s. if s + L > sz then sz - L else s)"
  have "sorted_wrt (<) (map f (spec_candidates start (sz - L + S) S))"
  proof (induction start "sz - L + S" S rule: spec_candidates.induct)
    case (1 start S)
    show ?case
    proof (cases "0 < S \<and> start < sz - L + S")
      case True
      with 1 have IH: "sorted_wrt (<) (map f (spec_candidates (start + S) (sz - L + S) S))" by simp
      have "f start < f s" if "s \<in> set (spec_candidates (start + S) (sz - L + S) S)" for s
      proof -
        from candidates_bounds [OF that] have "start + S \<le> s" "s < sz - L + S" by simp_all
        with True show ?thesis by (auto simp: f_def)
      qed
      then have "\<forall>y \<in> set (map f (spec_candidates (start + S) (sz - L + S) S)). f start < y"
        by auto
      moreover have "spec_candidates start (sz - L + S) S
          = start # spec_candidates (start + S) (sz - L + S) S"
        using True by (simp add: spec_candidates.simps [of start])
      ultimately show ?thesis using IH by simp
    next
      case False
      then have "spec_candidates start (sz - L + S) S = []"
        by (auto simp: spec_candidates.simps [of start])
      then show ?thesis by simp
    qed
  qed
  then show ?thesis by (simp add: f_def)
qed

lemma starts_increasing: "sorted_wrt (<) (spec_starts sz L S)"
  unfolding spec_starts_def by (rule clamped_candidates_increasing)

lemma starts_distinct: "distinct (spec_starts sz L S)"
  using starts_increasing [of sz L S] by (simp add: strict_sorted_iff)

text \<open>
  Claim C1, as amended. When every handler meets the build preconditions (2-dimensional
  length and stride, a 2-dimensional handler shape and \<open>0 < S \<le> L \<le> size\<close> on each
  axis), \<open>prepare_indices\<close> appends, handler by handler, one patch record per pair of
  starts, where the starts of an axis are the candidates \<open>0, S, 2 S, \<dots>\<close> generated
  while \<open>start < size - L + S\<close>, each one with \<open>start + L > size\<close> moved back to
  \<open>size - L\<close>. For \<open>size = 10\<close>, \<open>L = 4\<close>, \<open>S = 3\<close> the candidates are \<open>0, 3, 6\<close>
  (9 is not below the bound 9), none is moved, and the start sequence is \<open>[0, 3, 6]\<close>.
\<close>

theorem prepare_indices_start_sequences:
  assumes "\<forall>h \<in> set (handlers self). tiling_ok (length_2D self) (stride_2D self) h"
  shows "prepare_indices self =
           Inr (self\<lparr>indexes := indexes self @
                  map Patch (spec_index (length_2D self) (stride_2D self) (handlers self))\<rparr>)
         \<and> spec_starts 10 4 3 = [0, 3, 6]"
proof -
  have "spec_starts 10 4 3 = [0, 3, 6]"
    by (simp add: spec_starts_def spec_candidates.simps)
  then show ?thesis
    using prepare_loop_spec [OF assms, of 0]
    by (simp add: prepare_indices_def spec_index_def)
qed

text \<open>
  The theorem at one handler of shape \<open>(10, 4)\<close> with length \<open>[4, 4]\<close> and stride
  \<open>[3, 3]\<close>: three patch records, with \<open>x\<close> starts 0, 3 and 6.
\<close>

theorem prepare_indices_start_sequences_witness:
  "tiling_ok [4, 4] [3, 3] (zero_slice 10 4, zero_slice 10 4) \<and>
   prepare_indices (patch_dataset [4, 4] [3, 3] [(zero_slice 10 4, zero_slice 10 4)]) =
     Inr ((patch_dataset [4, 4] [3, 3] [(zero_slice 10 4, zero_slice 10 4)])
            \<lparr>indexes := [Patch \<lparr>x_min = 0, x_max = 4, y_min = 0, y_max = 4, handler_index = 0\<rparr>,
                         Patch \<lparr>x_min = 3, x_max = 7, y_min = 0, y_max = 4, handler_index = 0\<rparr>,
                         Patch \<lparr>x_min = 6, x_max = 10, y_min = 0, y_max = 4, handler_index = 0\<rparr>]\<rparr>)"
proof -
  have ok: "tiling_ok [4, 4] [3, 3] (zero_slice 10 4, zero_slice 10 4)"
    by (simp add: tiling_ok_def zero_slice_def)
  then have "\<forall>h \<in> set (handlers (patch_dataset [4, 4] [3, 3] [(zero_slice 10 4, zero_slice 10 4)])).
      tiling_ok (length_2D (patch_dataset [4, 4] [3, 3] [(zero_slice 10 4, zero_slice 10 4)]))
        (stride_2D (patch_dataset [4, 4] [3, 3] [(zero_slice 10 4, zero_slice 10 4)])) h"
    by (simp add: patch_dataset_def)
  from prepare_indices_start_sequences [OF this] ok show ?thesis
    by (simp add: patch_dataset_def spec_index_def spec_handler_tiles_def spec_tiles_def
        handler_shape_def zero_slice_def spec_starts_10_4_3 spec_starts_4_4_3)
qed

text \<open>
  The claim as stated fails: for \<open>size = 10\<close>, \<open>L = 4\<close>, \<open>S = 3\<close> the emitted \<open>x\<close>
  starts are \<open>[0, 3, 6]\<close>, not \<open>[0, 3, 6, 6]\<close>; \<open>range(0, 9, 3)\<close> does not yield 9.
\<close>

theorem final_start_sequence_counterexample:
  "built_x_starts (patch_dataset [4, 4] [3, 3] [(zero_slice 10 4, zero_slice 10 4)]) = Some [0, 3, 6]
   \<and> built_x_starts (patch_dataset [4, 4] [3, 3] [(zero_slice 10 4, zero_slice 10 4)]) \<noteq> Some [0, 3, 6, 6]"
  by (simp add: built_x_starts_def prepare_indices_def handler_patches_def patch_dataset_def
      zero_slice_def py_range_def range_len_def y_loop_def clamp_start_def x_starts_def
      upt_conv_Cons)

lemma handler_tiles_member:
  "c \<in> set (spec_handler_tiles [Lx, Ly] [Sx, Sy] i h) \<longleftrightarrow>
     (\<exists>x \<in> set (spec_starts (handler_shape h ! 0) Lx Sx).
      \<exists>y \<in> set (spec_starts (handler_shape h ! 1) Ly Sy).
        c = \<lparr>x_min = x, x_max = x + Lx, y_min = y, y_max = y + Ly, handler_index = i\<rparr>)"
  by (simp add: spec_handler_tiles_def tiles_member)

lemma tiling_okD:
  assumes "tiling_ok [Lx, Ly] [Sx, Sy] h"
  shows "0 < Sx \<and> Sx \<le> Lx \<and> Lx \<le> handler_shape h ! 0 \<and>
         0 < Sy \<and> Sy \<le> Ly \<and> Ly \<le> handler_shape h ! 1"
  using assms by (auto simp: tiling_ok_def handler_shape_def split: list.splits)

text \<open>
  Claim C2. When length is \<open>[Lx, Ly]\<close>, stride is \<open>[Sx, Sy]\<close> and every handler
  of shape \<open>(H, W)\<close> meets \<open>0 < S \<le> L \<le> size\<close> on both axes, \<open>prepare_indices\<close>
  succeeds; every entry it emits is a patch record of a handler of the list with
  \<open>x_max - x_min = Lx\<close>, \<open>y_max - y_min = Ly\<close> and its window inside
  \<open>[0, H) \<times> [0, W)\<close> of that handler; and every pixel of every handler lies in the
  window of some emitted record of that handler.
\<close>
theorem patch_windows_cover:
  assumes lens: "length_2D self = [Lx, Ly]" and strides: "stride_2D self = [Sx, Sy]"
    and ok: "\<forall>h \<in> set (handlers self). tiling_ok [Lx, Ly] [Sx, Sy] h"
    and empty: "indexes self = []"
  shows "\<exists>self'. prepare_indices self = Inr self' \<and> handlers self' = handlers self \<and>
           (\<forall>e \<in> set (indexes self'). \<exists>c. e = Patch c \<and>
              0 \<le> handler_index c \<and> nat (handler_index c) < length (handlers self) \<and>
              window_ok [Lx, Ly] (handler_shape (handlers self ! nat (handler_index c))) c) \<and>
           (\<forall>i < length (handlers self). \<forall>px py.
              0 \<le> px \<and> px < handler_shape (handlers self ! i) ! 0 \<and>
              0 \<le> py \<and> py < handler_shape (handlers self ! i) ! 1 \<longrightarrow>
              (\<exists>c. Patch c \<in> set (indexes self') \<and> handler_index c = int i \<and> covers c px py))"
proof -
  let ?hs = "handlers self"
  from prepare_loop_succeeds [of ?hs "[Lx, Ly]" "[Sx, Sy]" 0] ok
  obtain cs where cs: "prepare_loop [Lx, Ly] [Sx, Sy] 0 ?hs = Inr cs" by blast
  define self' where "self' = self\<lparr>indexes := map Patch cs\<rparr>"
  have res: "prepare_indices self = Inr self'"
    using cs lens strides empty by (simp add: prepare_indices_def self'_def)
  have idx: "indexes self' = map Patch cs" and hs: "handlers self' = ?hs"
    by (simp_all add: self'_def)
  have inside: "0 \<le> handler_index c \<and> nat (handler_index c) < length ?hs \<and>
      window_ok [Lx, Ly] (handler_shape (?hs ! nat (handler_index c))) c" if "c \<in> set cs" for c
  proof -
    from prepare_loop_sound [OF cs that] obtain j t where
      j: "j < length ?hs" and t: "handler_patches [Lx, Ly] [Sx, Sy] (int (0 + j)) (?hs ! j) = Inr t"
      and c: "c \<in> set t" by blast
    from j ok have okj: "tiling_ok [Lx, Ly] [Sx, Sy] (?hs ! j)" by simp
    from t handler_patches_spec [OF okj, of "int j"] c
    have "c \<in> set (spec_handler_tiles [Lx, Ly] [Sx, Sy] (int j) (?hs ! j))" by simp
    then obtain x y where
      x: "x \<in> set (spec_starts (handler_shape (?hs ! j) ! 0) Lx Sx)" and
      y: "y \<in> set (spec_starts (handler_shape (?hs ! j) ! 1) Ly Sy)" and
      ceq: "c = \<lparr>x_min = x, x_max = x + Lx, y_min = y, y_max = y + Ly, handler_index = int j\<rparr>"
      unfolding handler_tiles_member by blast
    from tiling_okD [OF okj] starts_inside [OF _ x] starts_inside [OF _ y]
    have "0 \<le> x \<and> x + Lx \<le> handler_shape (?hs ! j) ! 0 \<and> 0 \<le> y \<and> y + Ly \<le> handler_shape (?hs ! j) ! 1"
      by simp
    then show ?thesis using ceq j by (simp add: window_ok_def)
  qed
  have cover: "\<exists>c. Patch c \<in> set (indexes self') \<and> handler_index c = int i \<and> covers c px py"
    if i: "i < length ?hs" and px: "0 \<le> px" "px < handler_shape (?hs ! i) ! 0"
      and py: "0 \<le> py" "py < handler_shape (?hs ! i) ! 1" for i px py
  proof -
    from i ok have oki: "tiling_ok [Lx, Ly] [Sx, Sy] (?hs ! i)" by simp
    note d = tiling_okD [OF oki]
    from starts_cover [of Sx Lx "handler_shape (?hs ! i) ! 0" px] d px obtain x where
      x: "x \<in> set (spec_starts (handler_shape (?hs ! i) ! 0) Lx Sx)" "x \<le> px" "px < x + Lx"
      by blast
    from starts_cover [of Sy Ly "handler_shape (?hs ! i) ! 1" py] d py obtain y where
      y: "y \<in> set (spec_starts (handler_shape (?hs ! i) ! 1) Ly Sy)" "y \<le> py" "py < y + Ly"
      by blast
    let ?c = "\<lparr>x_min = x, x_max = x + Lx, y_min = y, y_max = y + Ly, handler_index = int i\<rparr>"
    have "?c \<in> set (spec_handler_tiles [Lx, Ly] [Sx, Sy] (int i) (?hs ! i))"
      unfolding handler_tiles_member using x(1) y(1) by blast
    moreover have "handler_patches [Lx, Ly] [Sx, Sy] (int (0 + i)) (?hs ! i)
        = Inr (spec_handler_tiles [Lx, Ly] [Sx, Sy] (int i) (?hs ! i))"
      using handler_patches_spec [OF oki, of "int i"] by simp
    ultimately have "?c \<in> set cs"
      using prepare_loop_complete [OF cs i] by blast
    then have "Patch ?c \<in> set (indexes self')" by (simp add: idx)
    moreover have "covers ?c px py" using x y by (simp add: covers_def)
    ultimately show ?thesis by (intro exI [of _ ?c]) simp
  qed
  show ?thesis
  proof (intro exI [of _ self'] conjI ballI allI impI)
    show "prepare_indices self = Inr self'" by (rule res)
    show "handlers self' = ?hs" by (rule hs)
  next
    fix e assume "e \<in> set (indexes self')"
    then obtain c where "e = Patch c" "c \<in> set cs" by (auto simp: idx)
    with inside [of c] show "\<exists>c. e = Patch c \<and> 0 \<le> handler_index c \<and>
        nat (handler_index c) < length ?hs \<and>
        window_ok [Lx, Ly] (handler_shape (?hs ! nat (handler_index c))) c" by blast
  next
    fix i px py
    assume "i < length ?hs"
      "0 \<le> px \<and> px < handler_shape (?hs ! i) ! 0 \<and> 0 \<le> py \<and> py < handler_shape (?hs ! i) ! 1"
    then show "\<exists>c. Patch c \<in> set (indexes self') \<and> handler_index c = int i \<and> covers c px py"
      using cover [of i px py] by blast
  qed
qed

text \<open>The theorem at one handler of shape \<open>(10, 4)\<close>, length \<open>[4, 4]\<close>, stride \<open>[3, 3]\<close>.\<close>

theorem patch_windows_cover_witness:
  "tiling_ok [4, 4] [3, 3] (zero_slice 10 4, zero_slice 10 4) \<and>
   (\<exists>self'. prepare_indices (patch_dataset [4, 4] [3, 3] [(zero_slice 10 4, zero_slice 10 4)]) = Inr self' \<and>
      handlers self' = [(zero_slice 10 4, zero_slice 10 4)] \<and>
      (\<forall>e \<in> set (indexes self'). \<exists>c. e = Patch c \<and> handler_index c = 0 \<and>
         window_ok [4, 4] [10, 4] c) \<and>
      (\<forall>px py. 0 \<le> px \<and> px < 10 \<and> 0 \<le> py \<and> py < 4 \<longrightarrow>
         (\<exists>c. Patch c \<in> set (indexes self') \<and> handler_index c = 0 \<and> covers c px py)))"
proof -
  let ?h = "(zero_slice 10 4, zero_slice 10 4)"
  let ?ds = "patch_dataset [4, 4] [3, 3] [?h]"
  have ok: "tiling_ok [4, 4] [3, 3] ?h"
    by (simp add: tiling_ok_def zero_slice_def)
  have h1: "length_2D ?ds = [4, 4]" and h2: "stride_2D ?ds = [3, 3]"
    and h4: "indexes ?ds = []" and hs: "handlers ?ds = [?h]"
    by (simp_all add: patch_dataset_def)
  have h3: "\<forall>h \<in> set (handlers ?ds). tiling_ok [4, 4] [3, 3] h"
    using ok by (simp add: hs)
  have shp: "handler_shape ?h = [10, 4]" by (simp add: handler_shape_def zero_slice_def)
  from patch_windows_cover [OF h1 h2 h3 h4] obtain self' where
    r: "prepare_indices ?ds = Inr self'" "handlers self' = handlers ?ds"
    and w: "\<forall>e \<in> set (indexes self'). \<exists>c. e = Patch c \<and>
              0 \<le> handler_index c \<and> nat (handler_index c) < length (handlers ?ds) \<and>
              window_ok [4, 4] (handler_shape (handlers ?ds ! nat (handler_index c))) c"
    and c: "\<forall>i < length (handlers ?ds). \<forall>px py.
              0 \<le> px \<and> px < handler_shape (handlers ?ds ! i) ! 0 \<and>
              0 \<le> py \<and> py < handler_shape (handlers ?ds ! i) ! 1 \<longrightarrow>
              (\<exists>c. Patch c \<in> set (indexes self') \<and> handler_index c = int i \<and> covers c px py)"
    by blast
  have w': "\<exists>c. e = Patch c \<and> handler_index c = 0 \<and> window_ok [4, 4] [10, 4] c"
    if "e \<in> set (indexes self')" for e
  proof -
    from w that obtain c where "e = Patch c" "0 \<le> handler_index c"
      "nat (handler_index c) < length (handlers ?ds)"
      "window_ok [4, 4] (handler_shape (handlers ?ds ! nat (handler_index c))) c" by blast
    then show ?thesis by (auto simp: hs shp)
  qed
  have c': "\<exists>c. Patch c \<in> set (indexes self') \<and> handler_index c = 0 \<and> covers c px py"
    if "0 \<le> px \<and> px < 10 \<and> 0 \<le> py \<and> py < 4" for px py
    using c [rule_format, of 0 px py] that by (simp add: hs shp)
  show ?thesis using ok r w' c' by (auto simp: hs)
qed

lemma length_2_conv: "length xs = 2 \<longleftrightarrow> (\<exists>a b. xs = [a, b])"
  by (cases xs; cases "tl xs") (auto simp: numeral_2_eq_2)

lemma check_dims_error:
  "check_dims [Lx, Ly] [Sx, Sy] [H, W] \<noteq> Inr () \<Longrightarrow>
     \<exists>msg. check_dims [Lx, Ly] [Sx, Sy] [H, W] = Inl (RuntimeError msg)"
  by (auto split: if_splits)

lemma handler_patches_error:
  assumes "handler_2d h" "\<not> tiling_ok lens strides h"
  shows "\<exists>msg. handler_patches lens strides i h = Inl (RuntimeError msg)"
proof -
  from assms(1) obtain img imgs H W where
    inp: "input (fst h) = img # imgs" and shp: "shape img = [H, W]"
    by (auto simp: handler_2d_def handler_shape_def length_2_conv split: list.splits)
  show ?thesis
  proof (cases "length lens \<noteq> 2 \<or> length strides \<noteq> 2")
    case True
    then show ?thesis using inp by (auto simp: handler_patches_def)
  next
    case False
    then obtain Lx Ly Sx Sy where ls: "lens = [Lx, Ly]" "strides = [Sx, Sy]"
      by (auto simp: length_2_conv)
    from assms(2) have "check_dims [Lx, Ly] [Sx, Sy] [H, W] \<noteq> Inr ()"
      unfolding check_dims_ok by (simp add: tiling_ok_def ls inp shp)
    from check_dims_error [OF this] obtain msg where
      "check_dims [Lx, Ly] [Sx, Sy] [H, W] = Inl (RuntimeError msg)" by blast
    then show ?thesis using inp shp ls by (simp add: handler_patches_def)
  qed
qed

lemma prepare_loop_error:
  "\<forall>h \<in> set hs. handler_2d h \<Longrightarrow> \<exists>h \<in> set hs. \<not> tiling_ok lens strides h \<Longrightarrow>
     \<exists>msg. prepare_loop lens strides k hs = Inl (RuntimeError msg)"
proof (induction hs arbitrary: k)
  case Nil
  then show ?case by simp
next
  case (Cons h hs)
  show ?case
  proof (cases "tiling_ok lens strides h")
    case False
    with Cons.prems(1) handler_patches_error [of h lens strides "int k"]
    obtain msg where "handler_patches lens strides (int k) h = Inl (RuntimeError msg)" by auto
    then show ?thesis by simp
  next
    case True
    with Cons.prems(2) have "\<exists>h \<in> set hs. \<not> tiling_ok lens strides h" by auto
    with Cons.IH [of "Suc k"] Cons.prems(1) obtain msg where
      "prepare_loop lens strides (Suc k) hs = Inl (RuntimeError msg)" by auto
    then show ?thesis using handler_patches_spec [OF True, of "int k"] by simp
  qed
qed

lemma tiling_ok_2d:
  assumes "handler_2d h"
  shows "tiling_ok lens strides h \<longleftrightarrow>
     (length lens = 2 \<and> length strides = 2 \<and>
      0 < strides ! 0 \<and> strides ! 0 \<le> lens ! 0 \<and> lens ! 0 \<le> handler_shape h ! 0 \<and>
      0 < strides ! 1 \<and> strides ! 1 \<le> lens ! 1 \<and> lens ! 1 \<le> handler_shape h ! 1)"
proof (cases "length lens = 2 \<and> length strides = 2")
  case True
  then obtain Lx Ly Sx Sy where ls: "lens = [Lx, Ly]" "strides = [Sx, Sy]"
    by (auto simp: length_2_conv)
  from assms obtain img imgs H W where "input (fst h) = img # imgs" "shape img = [H, W]"
    by (auto simp: handler_2d_def handler_shape_def length_2_conv split: list.splits)
  then show ?thesis by (simp add: ls tiling_ok_def handler_shape_def)
next
  case False
  then have "\<not> tiling_ok lens strides h"
    by (auto simp: tiling_ok_def split: list.splits)
  with False show ?thesis by blast
qed

lemma config_error_iff:
  assumes "hs \<noteq> []" "\<forall>h \<in> set hs. handler_2d h"
  shows "config_error lens strides hs \<longleftrightarrow> (\<exists>h \<in> set hs. \<not> tiling_ok lens strides h)"
proof -
  define A where "A \<longleftrightarrow> length lens = 2 \<and> length strides = 2 \<and>
      0 < strides ! 0 \<and> strides ! 0 \<le> lens ! 0 \<and> 0 < strides ! 1 \<and> strides ! 1 \<le> lens ! 1"
  define B where "B = (\<lambda>h. lens ! 0 \<le> handler_shape h ! 0 \<and> lens ! 1 \<le> handler_shape h ! 1)"
  from assms(1) obtain h0 where h0: "h0 \<in> set hs" by (cases hs) auto
  have ok: "tiling_ok lens strides h \<longleftrightarrow> A \<and> B h" if "h \<in> set hs" for h
    using tiling_ok_2d [of h lens strides] assms(2) that unfolding A_def B_def by blast
  have "config_error lens strides hs \<longleftrightarrow> \<not> A \<or> (\<exists>h \<in> set hs. \<not> B h)"
    unfolding config_error_def list_ex_iff A_def B_def by (auto simp: not_le)
  also have "\<dots> \<longleftrightarrow> (\<exists>h \<in> set hs. \<not> (A \<and> B h))" using h0 by blast
  also have "\<dots> \<longleftrightarrow> (\<exists>h \<in> set hs. \<not> tiling_ok lens strides h)" using ok by blast
  finally show ?thesis .
qed

text \<open>
  Claim C3, as amended. When patching is requested, at least one handler has been
  loaded and every handler has a 2-dimensional first input array, \<open>prepare_indices\<close>
  (which \<open>load_filenames\<close> runs, before any fetch) raises a \<open>RuntimeError\<close>, the
  configuration error of the loader, exactly when length or stride is not
  2-dimensional, or a stride component is not positive, or a stride component exceeds
  its length component, or a length component exceeds the shape component of some
  handler; in every other case it succeeds.
\<close>
theorem config_errors_raised_at_build:
  assumes "handlers self \<noteq> []" and "\<forall>h \<in> set (handlers self). handler_2d h"
  shows "(\<exists>msg. prepare_indices self = Inl (RuntimeError msg))
           = config_error (length_2D self) (stride_2D self) (handlers self)
       \<and> (\<exists>self'. prepare_indices self = Inr self')
           = (\<not> config_error (length_2D self) (stride_2D self) (handlers self))"
proof (cases "config_error (length_2D self) (stride_2D self) (handlers self)")
  case True
  then have "\<exists>h \<in> set (handlers self). \<not> tiling_ok (length_2D self) (stride_2D self) h"
    using config_error_iff [OF assms] by simp
  from prepare_loop_error [OF assms(2) this, of 0] obtain msg where
    "prepare_loop (length_2D self) (stride_2D self) 0 (handlers self) = Inl (RuntimeError msg)"
    by blast
  then have "prepare_indices self = Inl (RuntimeError msg)" by (simp add: prepare_indices_def)
  then show ?thesis using True by simp
next
  case False
  then have "\<forall>h \<in> set (handlers self). tiling_ok (length_2D self) (stride_2D self) h"
    using config_error_iff [OF assms] by simp
  from prepare_loop_succeeds [OF this, of 0] obtain cs where
    "prepare_loop (length_2D self) (stride_2D self) 0 (handlers self) = Inr cs" by blast
  then have "prepare_indices self = Inr (self\<lparr>indexes := indexes self @ map Patch cs\<rparr>)"
    by (simp add: prepare_indices_def)
  then show ?thesis using False by simp
qed

text \<open>
  The theorem at one handler of shape \<open>(10, 10)\<close>: length \<open>[4, 4]\<close> with stride
  \<open>[5, 5]\<close> raises, with stride \<open>[3, 3]\<close> the build succeeds.
\<close>

theorem config_errors_raised_at_build_witness:
  "config_error [4, 4] [5, 5] [(zero_slice 10 10, zero_slice 10 10)] \<and>
   (\<exists>msg. prepare_indices (patch_dataset [4, 4] [5, 5] [(zero_slice 10 10, zero_slice 10 10)])
            = Inl (RuntimeError msg)) \<and>
   \<not> config_error [4, 4] [3, 3] [(zero_slice 10 10, zero_slice 10 10)] \<and>
   (\<exists>self'. prepare_indices (patch_dataset [4, 4] [3, 3] [(zero_slice 10 10, zero_slice 10 10)])
            = Inr self')"
proof -
  let ?h = "(zero_slice 10 10, zero_slice 10 10)"
  have h2d: "handler_2d ?h" by (simp add: handler_2d_def handler_shape_def zero_slice_def)
  have bad: "config_error [4, 4] [5, 5] [?h]" by (simp add: config_error_def)
  have good: "\<not> config_error [4, 4] [3, 3] [?h]"
    by (simp add: config_error_def handler_shape_def zero_slice_def)
  have a: "handlers (patch_dataset lens strides [?h]) \<noteq> []"
    and b: "\<forall>h \<in> set (handlers (patch_dataset lens strides [?h])). handler_2d h" for lens strides
    using h2d by (simp_all add: patch_dataset_def)
  from config_errors_raised_at_build [OF a b, of "[4, 4]" "[5, 5]"]
       config_errors_raised_at_build [OF a b, of "[4, 4]" "[3, 3]"] bad good
  show ?thesis by (simp add: patch_dataset_def)
qed

text \<open>
  The claim as stated fails when no handler was loaded: with a 1-dimensional length and a
  3-dimensional stride, patching is requested, the configuration is in error, and
  \<open>prepare_indices\<close> returns the dataset unchanged.
\<close>

theorem empty_handlers_counterexample:
  "is_2d_patch (patch_dataset [4] [5, 5, 5] []) \<and>
   config_error [4] [5, 5, 5] [] \<and>
   prepare_indices (patch_dataset [4] [5, 5, 5] []) = Inr (patch_dataset [4] [5, 5, 5] [])"
  by (simp add: config_error_def prepare_indices_def patch_dataset_def)

lemma prepare_indices_no_handlers:
  "handlers self = [] \<Longrightarrow> prepare_indices self = Inr self"
  by (simp add: prepare_indices_def)

text \<open>
  With patching, \<open>load_filenames\<close> ends with \<open>prepare_indices\<close> on the dataset that
  the load loop leaves: the index is built, and its errors are raised, in the load phase.
\<close>

lemma load_filenames_builds_index:
  "pair_loop env self (filename_pairs self) = Inr self' \<Longrightarrow> is_2d_patch self' \<Longrightarrow>
     load_filenames env self = prepare_indices self'"
  by (simp add: load_filenames_def)

lemma load_slice_patch_mode:
  assumes "is_2d_patch self" "load_slice env roi_pair seg_pair self idx = Inr self'"
  shows "is_2d_patch self' \<and> indexes self' = indexes self"
  using assms
  by (auto simp: load_slice_def Let_def bind_def split: if_splits sum.splits)

lemma slice_loop_patch_mode:
  "is_2d_patch self \<Longrightarrow> slice_loop env roi_pair seg_pair self idxs = Inr self' \<Longrightarrow>
     is_2d_patch self' \<and> indexes self' = indexes self"
proof (induction idxs arbitrary: self)
  case Nil
  then show ?case by simp
next
  case (Cons idx idxs)
  from Cons.prems(2) obtain s1 where
    s1: "load_slice env roi_pair seg_pair self idx = Inr s1"
    and rest: "slice_loop env roi_pair seg_pair s1 idxs = Inr self'"
    by (auto simp: bind_def split: sum.splits)
  from load_slice_patch_mode [OF Cons.prems(1) s1] Cons.IH [OF _ rest]
  show ?case by simp
qed

lemma pair_loop_patch_mode:
  "is_2d_patch self \<Longrightarrow> pair_loop env self fps = Inr self' \<Longrightarrow>
     is_2d_patch self' \<and> indexes self' = indexes self"
proof (induction fps arbitrary: self)
  case Nil
  then show ?case by simp
next
  case (Cons fp fps)
  obtain roi_pair seg_pair where sp: "segmentation_pairs env self fp = (roi_pair, seg_pair)"
    by (cases "segmentation_pairs env self fp")
  from Cons.prems(2) sp obtain s1 where
    s1: "slice_loop env roi_pair seg_pair self [0..<n_slices env seg_pair] = Inr s1"
    and rest: "pair_loop env s1 fps = Inr self'"
    by (auto simp: bind_def split: sum.splits)
  from slice_loop_patch_mode [OF Cons.prems(1) s1] Cons.IH [OF _ rest]
  show ?case by simp
qed

text \<open>
  Claim C10. When patching is enabled and the load loop accepts no slice (the handler
  list is empty after it), \<open>load_filenames\<close> completes without an error whatever
  length and stride are, and the dataset has length 0: the checks of length and stride
  stand inside the loop over the handlers.
\<close>
theorem no_accepted_slice_no_validation:
  assumes "is_2d_patch self" and "indexes self = []"
    and "pair_loop env self (filename_pairs self) = Inr self'" and "handlers self' = []"
  shows "load_filenames env self = Inr self' \<and> len self' = 0"
proof -
  from pair_loop_patch_mode [OF assms(1) assms(3)] assms(2)
  have "is_2d_patch self'" "indexes self' = []" by simp_all
  then show ?thesis
    using assms(3) prepare_indices_no_handlers [OF assms(4)]
    by (simp add: load_filenames_def len_def)
qed

text \<open>
  The theorem at a 1-dimensional length and a 3-dimensional stride with a zero
  component, with a slice filter that rejects every slice.
\<close>

lemma reject_all_load:
  "pair_loop reject_all_env (patch_dataset lens strides []) (filename_pairs (patch_dataset lens strides []))
     = Inr (patch_dataset lens strides [])"
  by (simp add: reject_all_env_def patch_dataset_def load_slice_def upt_conv_Cons)

theorem no_accepted_slice_no_validation_witness:
  "is_2d_patch (patch_dataset [4] [0, 9, 9] []) \<and>
   indexes (patch_dataset [4] [0, 9, 9] []) = [] \<and>
   config_error [4] [0, 9, 9] [] \<and>
   load_filenames reject_all_env (patch_dataset [4] [0, 9, 9] []) = Inr (patch_dataset [4] [0, 9, 9] []) \<and>
   len (patch_dataset [4] [0, 9, 9] []) = 0"
proof -
  let ?ds = "patch_dataset [4] [0, 9, 9] []"
  have a: "is_2d_patch ?ds" and b: "indexes ?ds = []" and d: "handlers ?ds = []"
    by (simp_all add: patch_dataset_def)
  have c: "pair_loop reject_all_env ?ds (filename_pairs ?ds) = Inr ?ds" by (rule reject_all_load)
  have e: "config_error [4] [0, 9, 9] []" by (simp add: config_error_def)
  from no_accepted_slice_no_validation [OF a b c d] a b e show ?thesis by simp
qed

section \<open>Properties of the fetch\<close>

lemma bind_eq_Inr: "bind m f = Inr y \<longleftrightarrow> (\<exists>v. m = Inr v \<and> f v = Inr y)"
  by (cases m) simp_all

lemma bind_eq_Inl: "bind m f = Inl e \<longleftrightarrow> m = Inl e \<or> (\<exists>v. m = Inr v \<and> f v = Inl e)"
  by (cases m) simp_all

lemma list_get_outside:
  "i < - int (length xs) \<or> int (length xs) \<le> i \<Longrightarrow> list_get xs i = Inl IndexError"
  by (auto simp: list_get_def)

lemma list_get_negative:
  "- int (length xs) \<le> i \<Longrightarrow> i < 0 \<Longrightarrow> list_get xs i = list_get xs (i + int (length xs))"
  by (auto simp: list_get_def)

lemma list_get_inside:
  "0 \<le> i \<Longrightarrow> i < int (length xs) \<Longrightarrow> list_get xs i = Inr (xs ! nat i)"
  by (simp add: list_get_def)

lemma resolve_entry_outside:
  "i < - int (len self) \<or> int (len self) \<le> i \<Longrightarrow> resolve_entry self i = Inl IndexError"
  by (simp add: resolve_entry_def len_def list_get_outside)

lemma resolve_entry_negative:
  "- int (len self) \<le> i \<Longrightarrow> i < 0 \<Longrightarrow> resolve_entry self i = resolve_entry self (i + int (len self))"
  by (simp add: resolve_entry_def len_def list_get_negative)

lemma pick_rater_single:
  assumes "gt seg = None \<or> (\<exists>a rest. gt seg = Some (Arr a # rest))"
  shows "pick_rater env seg st = Inr (seg, st)"
  using assms by (auto simp: pick_rater_def)

lemma run_transforms_segmentation:
  "task self = ''segmentation'' \<Longrightarrow> \<exists>r. run_transforms env self seg roi st = Inr r"
  by (simp add: run_transforms_def call_transform_def Let_def split: prod.splits)

text \<open>The fetch of the second of two slices, with the stacking pipeline.\<close>

lemma stacking_fetch_last:
  "getitem stacking_env (slice_dataset [(zero_slice 2 2, zero_slice 2 2), (two_rater_slice, zero_slice 1 1)]) 1 () =
     Inr (\<lparr>dd_input = Some \<lparr>shape = [1, 1, 1], voxels = [7]\<rparr>,
           dd_gt = Some \<lparr>shape = [2, 1, 1], voxels = [1, 1]\<rparr>, dd_roi = None,
           dd_input_metadata = [Meta []],
           dd_gt_metadata = [Meta [(''rater'', Str ''r1'')], Meta [(''rater'', Str ''r1'')]],
           dd_roi_metadata = []\<rparr>,
          (),
          [RandInt 0 1 1, TransformCall ''roi'' None [] [],
           TransformCall ''im'' (Some [Arr (pixel 7)]) [Meta []] [Meta []],
           TransformCall ''gt'' (Some [Arr (pixel 1), Arr (pixel 1)])
             [Meta [(''rater'', Str ''r1'')], Meta [(''rater'', Str ''r1'')]]
             [Meta [(''rater'', Str ''r1'')], Meta [(''rater'', Str ''r1'')]]])"
  by (simp add: getitem_def resolve_entry_def slice_dataset_def patch_dataset_def list_get_def
      pick_rater_def two_rater_slice_def zero_slice_def stacking_env_def rater_of_def
      rater_meta_of_def next_meta_def run_transforms_def call_transform_def or_empty_def
      stack_arrays_def assemble_def pixel_def Let_def)


lemma merge_policy:
  "map_of (AList.merge dest src) key = (case map_of src key of Some v \<Rightarrow> Some v | None \<Rightarrow> map_of dest key)"
  by (simp add: AList.merge_conv' map_add_def)

lemma update_metadata_length: "length (update_metadata src dest) = length dest"
  by (induction src dest rule: update_metadata.induct) simp_all

lemma update_metadata_nth:
  "k < length src \<Longrightarrow> k < length dest \<Longrightarrow>
     update_metadata src dest ! k = merge_meta (src ! k) (dest ! k)"
proof (induction src dest arbitrary: k rule: update_metadata.induct)
  case (1 s ss d ds)
  then show ?case by (cases k) simp_all
qed simp_all

lemma update_metadata_policy:
  assumes "k < length src" "k < length dest" "src ! k = Meta s" "dest ! k = Meta d"
  shows "\<exists>r. update_metadata src dest ! k = Meta r \<and>
           (\<forall>key. map_of r key = (case map_of s key of Some v \<Rightarrow> Some v | None \<Rightarrow> map_of d key))"
  using assms by (simp add: update_metadata_nth merge_policy)

lemma list_get_0: "list_get xs 0 = (case xs of [] \<Rightarrow> Inl IndexError | x # _ \<Rightarrow> Inr x)"
  by (cases xs) (simp_all add: list_get_def)

lemma pick_rater_cases:
  assumes "pick_rater env seg0 (w, l0) = Inr (seg, w1, l1)"
  shows "(seg = seg0 \<and> w1 = w \<and> l1 = l0) \<or>
         (\<exists>rs rest r gs ms. gt seg0 = Some (Raters rs # rest) \<and> rs \<noteq> [] \<and>
            randint env 0 (int (length rs) - 1) w = (r, w1) \<and>
            l1 = l0 @ [RandInt 0 (int (length rs) - 1) r] \<and>
            rater_loop r (Raters rs # rest) (gt_metadata seg0) = Inr (gs, ms) \<and>
            seg = seg0\<lparr>gt := Some gs, gt_metadata := ms\<rparr>)"
proof (cases "gt seg0")
  case None
  with assms show ?thesis by (simp add: pick_rater_def)
next
  case (Some classes)
  show ?thesis
  proof (cases classes)
    case Nil
    with assms Some show ?thesis by (simp add: pick_rater_def list_get_0)
  next
    case (Cons g rest)
    show ?thesis
    proof (cases g)
      case (Arr a)
      with assms Some Cons show ?thesis by (simp add: pick_rater_def list_get_0)
    next
      case (Raters rs)
      obtain r w' where rw: "randint env 0 (int (length rs) - 1) w = (r, w')"
        by (cases "randint env 0 (int (length rs) - 1) w")
      from assms Some Cons Raters have ne: "rs \<noteq> []"
        by (auto simp: pick_rater_def list_get_0 split: if_splits)
      with assms Some Cons Raters rw show ?thesis
        by (auto simp: pick_rater_def list_get_0 bind_eq_Inr)
    qed
  qed
qed

lemma pick_rater_no_calls:
  "pick_rater env seg0 (w, []) = Inr (seg, w1, l1) \<Longrightarrow> transform_calls l1 = []"
  by (drule pick_rater_cases) (auto simp: transform_calls_def)


text \<open>
  What the transform calls of lines 206-236 are given and what becomes of their results:
  each call is the pipeline of the environment run in the world the call before left,
  the metadata a call returns is the source of the next merge, and the stacks and
  metadata returned are the ones the fetch goes on with.
\<close>

lemma run_transforms_flow:
  assumes "run_transforms env self seg roi (w1, evs1) = Inr (s, w4, evs)"
  shows "\<exists>s_roi md_roi w2 s_input md_input w3 s_gt md_gt.
      transform env (gt roi) (or_empty (gt_metadata roi)) ''roi'' w1 = ((s_roi, md_roi), w2) \<and>
      transform env (Some (map Arr (input seg)))
        (update_metadata md_roi (map Meta (or_empty (input_metadata seg)))) ''im'' w2
        = ((s_input, md_input), w3) \<and>
      (if task self = ''segmentation'' then
         (\<exists>s_gt0. transform env (gt seg) (update_metadata md_input (or_empty (gt_metadata seg)))
                     ''gt'' w3 = ((s_gt0, md_gt), w4) \<and>
                  s_gt = binarized env (soft_gt self) s_gt0) \<and>
         evs = evs1 @
           [TransformCall ''roi'' (gt roi) (or_empty (gt_metadata roi)) md_roi,
            TransformCall ''im'' (Some (map Arr (input seg)))
              (update_metadata md_roi (map Meta (or_empty (input_metadata seg)))) md_input,
            TransformCall ''gt'' (gt seg)
              (update_metadata md_input (or_empty (gt_metadata seg))) md_gt]
       else
         w4 = w3 \<and> md_gt = update_metadata md_input (or_empty (gt_metadata seg)) \<and>
         (\<exists>label. classification_label seg = Inr label \<and> s_gt = Some label) \<and>
         evs = evs1 @
           [TransformCall ''roi'' (gt roi) (or_empty (gt_metadata roi)) md_roi,
            TransformCall ''im'' (Some (map Arr (input seg)))
              (update_metadata md_roi (map Meta (or_empty (input_metadata seg)))) md_input]) \<and>
      s = \<lparr>stack_input = s_input, stack_gt = s_gt, stack_roi = s_roi,
           metadata_input = md_input, metadata_gt = md_gt, metadata_roi = md_roi\<rparr>"
proof -
  obtain s_roi md_roi w2 where
    1: "transform env (gt roi) (or_empty (gt_metadata roi)) ''roi'' w1 = ((s_roi, md_roi), w2)"
    by (metis prod.exhaust)
  obtain s_input md_input w3 where
    2: "transform env (Some (map Arr (input seg)))
        (update_metadata md_roi (map Meta (or_empty (input_metadata seg)))) ''im'' w2
        = ((s_input, md_input), w3)"
    by (metis prod.exhaust)
  show ?thesis
  proof (cases "task self = ''segmentation''")
    case True
    obtain s_gt0 md_gt w4' where
      3: "transform env (gt seg) (update_metadata md_input (or_empty (gt_metadata seg)))
                     ''gt'' w3 = ((s_gt0, md_gt), w4')"
      by (metis prod.exhaust)
    from assms True 1 2 3 have
      "w4 = w4'" and
      "s = \<lparr>stack_input = s_input, stack_gt = binarized env (soft_gt self) s_gt0,
            stack_roi = s_roi, metadata_input = md_input, metadata_gt = md_gt,
            metadata_roi = md_roi\<rparr>" and
      "evs = evs1 @
           [TransformCall ''roi'' (gt roi) (or_empty (gt_metadata roi)) md_roi,
            TransformCall ''im'' (Some (map Arr (input seg)))
              (update_metadata md_roi (map Meta (or_empty (input_metadata seg)))) md_input,
            TransformCall ''gt'' (gt seg)
              (update_metadata md_input (or_empty (gt_metadata seg))) md_gt]"
      by (auto simp: run_transforms_def call_transform_def Let_def binarized_def
          split: option.splits)
    with True 1 2 3 show ?thesis
      by (intro exI [of _ s_roi] exI [of _ md_roi] exI [of _ w2] exI [of _ s_input]
          exI [of _ md_input] exI [of _ w3] exI [of _ "binarized env (soft_gt self) s_gt0"]
          exI [of _ md_gt]) simp
  next
    case False
    from assms False 1 2 obtain label where
      "classification_label seg = Inr label" and
      "w4 = w3" and
      "s = \<lparr>stack_input = s_input, stack_gt = Some label,
            stack_roi = s_roi, metadata_input = md_input,
            metadata_gt = update_metadata md_input (or_empty (gt_metadata seg)),
            metadata_roi = md_roi\<rparr>" and
      "evs = evs1 @
           [TransformCall ''roi'' (gt roi) (or_empty (gt_metadata roi)) md_roi,
            TransformCall ''im'' (Some (map Arr (input seg)))
              (update_metadata md_roi (map Meta (or_empty (input_metadata seg)))) md_input]"
      by (auto simp: run_transforms_def call_transform_def Let_def bind_eq_Inr)
    with False 1 2 show ?thesis
      by (intro exI [of _ s_roi] exI [of _ md_roi] exI [of _ w2] exI [of _ s_input]
          exI [of _ md_input] exI [of _ w3] exI [of _ "Some label"]
          exI [of _ "update_metadata md_input (or_empty (gt_metadata seg))"]) simp
  qed
qed

text \<open>
  Claim C4. In every fetch that returns, the transform pipeline is run in this order.
  First on the ROI channel (\<open>roi\<close>) with the ROI metadata, in the world the rater
  choice left. The metadata \<open>md_roi\<close> that this run returns is merged into the input
  metadata, and the pipeline is run on the input channels (\<open>im\<close>) with the merged
  metadata, in the world the ROI run left. The metadata \<open>md_input\<close> that this run
  returns is merged into the ground-truth metadata; for the segmentation task the
  pipeline is then run on the ground truth (\<open>gt\<close>) with that merged metadata, in the
  world the input run left, and for any other task no third run is made and the merged
  metadata is the ground-truth metadata of the sample. These are all the transform calls
  of the fetch, and the sample returned is assembled from the stacks and the metadata
  that these very runs returned. The merge keeps the length of the destination and, in
  every channel where both sides are dicts, gives each key the value of the source where
  the source defines it and the value of the destination otherwise.
\<close>

theorem transform_call_order:
  assumes "getitem env self index w = Inr (d, w', evs)"
  shows "(\<exists>entry seg0 roi seg w1 evs1 s_roi md_roi w2 s_input md_input w3 s_gt md_gt w4 d0.
      resolve_entry self index = Inr (entry, seg0, roi) \<and>
      pick_rater env seg0 (w, []) = Inr (seg, w1, evs1) \<and>
      transform env (gt roi) (or_empty (gt_metadata roi)) ''roi'' w1 = ((s_roi, md_roi), w2) \<and>
      transform env (Some (map Arr (input seg)))
        (update_metadata md_roi (map Meta (or_empty (input_metadata seg)))) ''im'' w2
        = ((s_input, md_input), w3) \<and>
      (if task self = ''segmentation'' then
         (\<exists>s_gt0. transform env (gt seg) (update_metadata md_input (or_empty (gt_metadata seg)))
                     ''gt'' w3 = ((s_gt0, md_gt), w4) \<and>
                  s_gt = binarized env (soft_gt self) s_gt0) \<and>
         transform_calls evs =
           [TransformCall ''roi'' (gt roi) (or_empty (gt_metadata roi)) md_roi,
            TransformCall ''im'' (Some (map Arr (input seg)))
              (update_metadata md_roi (map Meta (or_empty (input_metadata seg)))) md_input,
            TransformCall ''gt'' (gt seg)
              (update_metadata md_input (or_empty (gt_metadata seg))) md_gt]
       else
         w4 = w3 \<and> md_gt = update_metadata md_input (or_empty (gt_metadata seg)) \<and>
         (\<exists>label. classification_label seg = Inr label \<and> s_gt = Some label) \<and>
         transform_calls evs =
           [TransformCall ''roi'' (gt roi) (or_empty (gt_metadata roi)) md_roi,
            TransformCall ''im'' (Some (map Arr (input seg)))
              (update_metadata md_roi (map Meta (or_empty (input_metadata seg)))) md_input]) \<and>
      assemble entry \<lparr>stack_input = s_input, stack_gt = s_gt, stack_roi = s_roi,
                      metadata_input = md_input, metadata_gt = md_gt, metadata_roi = md_roi\<rparr>
        = Inr d0 \<and>
      (d, w') = (if is_input_dropout self then dropout_input env d0 w4 else (d0, w4)))
    \<and> (\<forall>src dest. length (update_metadata src dest) = length dest \<and>
          (\<forall>k s d'. k < length src \<and> k < length dest \<and> src ! k = Meta s \<and> dest ! k = Meta d' \<longrightarrow>
             (\<exists>r. update_metadata src dest ! k = Meta r \<and>
                (\<forall>key. map_of r key =
                   (case map_of s key of Some v \<Rightarrow> Some v | None \<Rightarrow> map_of d' key)))))"
proof (rule conjI)
  from assms obtain entry seg0 roi seg w1 evs1 s w4 d0 where
    1: "resolve_entry self index = Inr (entry, seg0, roi)" and
    2: "pick_rater env seg0 (w, []) = Inr (seg, w1, evs1)" and
    3: "run_transforms env self seg roi (w1, evs1) = Inr (s, w4, evs)" and
    4: "assemble entry s = Inr d0" and
    5: "(d, w') = (if is_input_dropout self then dropout_input env d0 w4 else (d0, w4))"
    by (auto simp: getitem_def bind_eq_Inr Let_def split: if_splits prod.splits)
  have nc: "transform_calls evs1 = []" by (rule pick_rater_no_calls [OF 2])
  from run_transforms_flow [OF 3] obtain s_roi md_roi w2 s_input md_input w3 s_gt md_gt where
    a: "transform env (gt roi) (or_empty (gt_metadata roi)) ''roi'' w1 = ((s_roi, md_roi), w2)" and
    b: "transform env (Some (map Arr (input seg)))
        (update_metadata md_roi (map Meta (or_empty (input_metadata seg)))) ''im'' w2
        = ((s_input, md_input), w3)" and
    c: "if task self = ''segmentation'' then
         (\<exists>s_gt0. transform env (gt seg) (update_metadata md_input (or_empty (gt_metadata seg)))
                     ''gt'' w3 = ((s_gt0, md_gt), w4) \<and>
                  s_gt = binarized env (soft_gt self) s_gt0) \<and>
         evs = evs1 @
           [TransformCall ''roi'' (gt roi) (or_empty (gt_metadata roi)) md_roi,
            TransformCall ''im'' (Some (map Arr (input seg)))
              (update_metadata md_roi (map Meta (or_empty (input_metadata seg)))) md_input,
            TransformCall ''gt'' (gt seg)
              (update_metadata md_input (or_empty (gt_metadata seg))) md_gt]
       else
         w4 = w3 \<and> md_gt = update_metadata md_input (or_empty (gt_metadata seg)) \<and>
         (\<exists>label. classification_label seg = Inr label \<and> s_gt = Some label) \<and>
         evs = evs1 @
           [TransformCall ''roi'' (gt roi) (or_empty (gt_metadata roi)) md_roi,
            TransformCall ''im'' (Some (map Arr (input seg)))
              (update_metadata md_roi (map Meta (or_empty (input_metadata seg)))) md_input]" and
    e: "s = \<lparr>stack_input = s_input, stack_gt = s_gt, stack_roi = s_roi,
           metadata_input = md_input, metadata_gt = md_gt, metadata_roi = md_roi\<rparr>"
    by blast
  have c': "if task self = ''segmentation'' then
         (\<exists>s_gt0. transform env (gt seg) (update_metadata md_input (or_empty (gt_metadata seg)))
                     ''gt'' w3 = ((s_gt0, md_gt), w4) \<and>
                  s_gt = binarized env (soft_gt self) s_gt0) \<and>
         transform_calls evs =
           [TransformCall ''roi'' (gt roi) (or_empty (gt_metadata roi)) md_roi,
            TransformCall ''im'' (Some (map Arr (input seg)))
              (update_metadata md_roi (map Meta (or_empty (input_metadata seg)))) md_input,
            TransformCall ''gt'' (gt seg)
              (update_metadata md_input (or_empty (gt_metadata seg))) md_gt]
       else
         w4 = w3 \<and> md_gt = update_metadata md_input (or_empty (gt_metadata seg)) \<and>
         (\<exists>label. classification_label seg = Inr label \<and> s_gt = Some label) \<and>
         transform_calls evs =
           [TransformCall ''roi'' (gt roi) (or_empty (gt_metadata roi)) md_roi,
            TransformCall ''im'' (Some (map Arr (input seg)))
              (update_metadata md_roi (map Meta (or_empty (input_metadata seg)))) md_input]"
  proof (cases "task self = ''segmentation''")
    case True
    with c nc show ?thesis by (auto simp: transform_calls_def)
  next
    case False
    with c nc show ?thesis by (auto simp: transform_calls_def)
  qed
  show "\<exists>entry seg0 roi seg w1 evs1 s_roi md_roi w2 s_input md_input w3 s_gt md_gt w4 d0.
      resolve_entry self index = Inr (entry, seg0, roi) \<and>
      pick_rater env seg0 (w, []) = Inr (seg, w1, evs1) \<and>
      transform env (gt roi) (or_empty (gt_metadata roi)) ''roi'' w1 = ((s_roi, md_roi), w2) \<and>
      transform env (Some (map Arr (input seg)))
        (update_metadata md_roi (map Meta (or_empty (input_metadata seg)))) ''im'' w2
        = ((s_input, md_input), w3) \<and>
      (if task self = ''segmentation'' then
         (\<exists>s_gt0. transform env (gt seg) (update_metadata md_input (or_empty (gt_metadata seg)))
                     ''gt'' w3 = ((s_gt0, md_gt), w4) \<and>
                  s_gt = binarized env (soft_gt self) s_gt0) \<and>
         transform_calls evs =
           [TransformCall ''roi'' (gt roi) (or_empty (gt_metadata roi)) md_roi,
            TransformCall ''im'' (Some (map Arr (input seg)))
              (update_metadata md_roi (map Meta (or_empty (input_metadata seg)))) md_input,
            TransformCall ''gt'' (gt seg)
              (update_metadata md_input (or_empty (gt_metadata seg))) md_gt]
       else
         w4 = w3 \<and> md_gt = update_metadata md_input (or_empty (gt_metadata seg)) \<and>
         (\<exists>label. classification_label seg = Inr label \<and> s_gt = Some label) \<and>
         transform_calls evs =
           [TransformCall ''roi'' (gt roi) (or_empty (gt_metadata roi)) md_roi,
            TransformCall ''im'' (Some (map Arr (input seg)))
              (update_metadata md_roi (map Meta (or_empty (input_metadata seg)))) md_input]) \<and>
      assemble entry \<lparr>stack_input = s_input, stack_gt = s_gt, stack_roi = s_roi,
                      metadata_input = md_input, metadata_gt = md_gt, metadata_roi = md_roi\<rparr>
        = Inr d0 \<and>
      (d, w') = (if is_input_dropout self then dropout_input env d0 w4 else (d0, w4))"
    apply (rule exI [of _ entry], rule exI [of _ seg0], rule exI [of _ roi], rule exI [of _ seg])
    apply (rule exI [of _ w1], rule exI [of _ evs1], rule exI [of _ s_roi], rule exI [of _ md_roi])
    apply (rule exI [of _ w2], rule exI [of _ s_input], rule exI [of _ md_input], rule exI [of _ w3])
    apply (rule exI [of _ s_gt], rule exI [of _ md_gt], rule exI [of _ w4], rule exI [of _ d0])
    using 1 2 a b c' 4 5 unfolding e by (intro conjI)
next
  show "\<forall>src dest. length (update_metadata src dest) = length dest \<and>
          (\<forall>k s d'. k < length src \<and> k < length dest \<and> src ! k = Meta s \<and> dest ! k = Meta d' \<longrightarrow>
             (\<exists>r. update_metadata src dest ! k = Meta r \<and>
                (\<forall>key. map_of r key =
                   (case map_of s key of Some v \<Rightarrow> Some v | None \<Rightarrow> map_of d' key))))"
    using update_metadata_length update_metadata_policy by blast
qed

text \<open>
  The fetch of a slice whose ROI metadata carries crop parameters: they override the
  older value in the input metadata, the contrast is kept, and both reach the ground
  truth metadata.
\<close>

lemma stacking_fetch_roi_crop:
  "getitem stacking_env (slice_dataset [roi_crop_item]) 0 () =
    Inr (\<lparr>dd_input = Some \<lparr>shape = [1, 1, 1], voxels = [7]\<rparr>,
         dd_gt = Some \<lparr>shape = [1, 1, 1], voxels = [1]\<rparr>,
         dd_roi = Some \<lparr>shape = [1, 1, 1], voxels = [1]\<rparr>,
         dd_input_metadata =
           [Meta [(''crop_params'', IntList [1, 2]), (''contrast'', Str ''T1w'')]],
         dd_gt_metadata =
           [Meta [(''gt_file'', Str ''lesion''), (''contrast'', Str ''T1w''),
                  (''crop_params'', IntList [1, 2])]],
         dd_roi_metadata = [Meta [(''crop_params'', IntList [1, 2])]]\<rparr>,
      (),
      [TransformCall ''roi'' (Some [Arr (pixel 1)])
        [Meta [(''crop_params'', IntList [1, 2])]]
        [Meta [(''crop_params'', IntList [1, 2])]],
       TransformCall ''im'' (Some [Arr (pixel 7)])
        [Meta [(''crop_params'', IntList [1, 2]), (''contrast'', Str ''T1w'')]]
        [Meta [(''crop_params'', IntList [1, 2]), (''contrast'', Str ''T1w'')]],
       TransformCall ''gt'' (Some [Arr (pixel 1)])
        [Meta [(''gt_file'', Str ''lesion''), (''contrast'', Str ''T1w''),
               (''crop_params'', IntList [1, 2])]]
        [Meta [(''gt_file'', Str ''lesion''), (''contrast'', Str ''T1w''),
               (''crop_params'', IntList [1, 2])]]])"
  by (simp add: getitem_def resolve_entry_def slice_dataset_def patch_dataset_def list_get_def
      pick_rater_def roi_crop_item_def stacking_env_def run_transforms_def call_transform_def
      or_empty_def stack_arrays_def assemble_def pixel_def Let_def AList.merge_def)

text \<open>
  The same fetch with a pipeline that writes into the metadata: what the ROI run wrote
  is in the metadata given to the input run, and what the input run wrote is in the
  metadata given to the ground-truth run.
\<close>

lemma tagging_fetch_roi_crop:
  "getitem tagging_env (slice_dataset [roi_crop_item]) 0 () =
    Inr (\<lparr>dd_input = Some \<lparr>shape = [1, 1, 1], voxels = [7]\<rparr>,
         dd_gt = Some \<lparr>shape = [1, 1, 1], voxels = [1]\<rparr>,
         dd_roi = Some \<lparr>shape = [1, 1, 1], voxels = [1]\<rparr>,
         dd_input_metadata =
           [Meta [(''crop_params'', IntList [1, 2]), (''contrast'', Str ''T1w''),
                  (''seen_by'', Str ''im'')]],
         dd_gt_metadata =
           [Meta [(''gt_file'', Str ''lesion''), (''seen_by'', Str ''gt''),
                  (''contrast'', Str ''T1w''), (''crop_params'', IntList [1, 2])]],
         dd_roi_metadata =
           [Meta [(''crop_params'', IntList [1, 2]), (''seen_by'', Str ''roi'')]]\<rparr>,
      (),
      [TransformCall ''roi'' (Some [Arr (pixel 1)])
        [Meta [(''crop_params'', IntList [1, 2])]]
        [Meta [(''crop_params'', IntList [1, 2]), (''seen_by'', Str ''roi'')]],
       TransformCall ''im'' (Some [Arr (pixel 7)])
        [Meta [(''crop_params'', IntList [1, 2]), (''contrast'', Str ''T1w''),
               (''seen_by'', Str ''roi'')]]
        [Meta [(''crop_params'', IntList [1, 2]), (''contrast'', Str ''T1w''),
               (''seen_by'', Str ''im'')]],
       TransformCall ''gt'' (Some [Arr (pixel 1)])
        [Meta [(''gt_file'', Str ''lesion''), (''seen_by'', Str ''im''),
               (''contrast'', Str ''T1w''), (''crop_params'', IntList [1, 2])]]
        [Meta [(''gt_file'', Str ''lesion''), (''seen_by'', Str ''gt''),
               (''contrast'', Str ''T1w''), (''crop_params'', IntList [1, 2])]]])"
  by (simp add: getitem_def resolve_entry_def slice_dataset_def patch_dataset_def list_get_def
      pick_rater_def roi_crop_item_def tagging_env_def stacking_env_def run_transforms_def
      call_transform_def or_empty_def stack_arrays_def assemble_def pixel_def Let_def
      AList.merge_def)

text \<open>
  The theorem at that fetch: the three runs of the pipeline, the metadata each returned,
  the two merges, and the sample assembled from them.
\<close>

theorem transform_call_order_witness:
  "\<exists>s_roi md_roi s_input md_input s_gt0 md_gt.
     transform tagging_env (gt (snd roi_crop_item)) (or_empty (gt_metadata (snd roi_crop_item)))
       ''roi'' () = ((s_roi, md_roi), ()) \<and>
     transform tagging_env (Some (map Arr (input (fst roi_crop_item))))
       (update_metadata md_roi (map Meta (or_empty (input_metadata (fst roi_crop_item)))))
       ''im'' () = ((s_input, md_input), ()) \<and>
     transform tagging_env (gt (fst roi_crop_item))
       (update_metadata md_input (or_empty (gt_metadata (fst roi_crop_item))))
       ''gt'' () = ((s_gt0, md_gt), ()) \<and>
     md_roi = [Meta [(''crop_params'', IntList [1, 2]), (''seen_by'', Str ''roi'')]] \<and>
     update_metadata md_roi (map Meta (or_empty (input_metadata (fst roi_crop_item)))) =
       [Meta [(''crop_params'', IntList [1, 2]), (''contrast'', Str ''T1w''),
              (''seen_by'', Str ''roi'')]] \<and>
     md_input = [Meta [(''crop_params'', IntList [1, 2]), (''contrast'', Str ''T1w''),
                       (''seen_by'', Str ''im'')]] \<and>
     update_metadata md_input (or_empty (gt_metadata (fst roi_crop_item))) =
       [Meta [(''gt_file'', Str ''lesion''), (''seen_by'', Str ''im''),
              (''contrast'', Str ''T1w''), (''crop_params'', IntList [1, 2])]] \<and>
     md_gt = [Meta [(''gt_file'', Str ''lesion''), (''seen_by'', Str ''gt''),
                    (''contrast'', Str ''T1w''), (''crop_params'', IntList [1, 2])]] \<and>
     assemble None
       \<lparr>stack_input = s_input, stack_gt = binarized tagging_env False s_gt0, stack_roi = s_roi,
        metadata_input = md_input, metadata_gt = md_gt, metadata_roi = md_roi\<rparr> =
       Inr \<lparr>dd_input = Some \<lparr>shape = [1, 1, 1], voxels = [7]\<rparr>,
            dd_gt = Some \<lparr>shape = [1, 1, 1], voxels = [1]\<rparr>,
            dd_roi = Some \<lparr>shape = [1, 1, 1], voxels = [1]\<rparr>,
            dd_input_metadata =
              [Meta [(''crop_params'', IntList [1, 2]), (''contrast'', Str ''T1w''),
                     (''seen_by'', Str ''im'')]],
            dd_gt_metadata =
              [Meta [(''gt_file'', Str ''lesion''), (''seen_by'', Str ''gt''),
                     (''contrast'', Str ''T1w''), (''crop_params'', IntList [1, 2])]],
            dd_roi_metadata =
              [Meta [(''crop_params'', IntList [1, 2]), (''seen_by'', Str ''roi'')]]\<rparr>"
proof -
  let ?ds = "slice_dataset [roi_crop_item]"
  let ?d = "\<lparr>dd_input = Some \<lparr>shape = [1, 1, 1], voxels = [7]\<rparr>,
            dd_gt = Some \<lparr>shape = [1, 1, 1], voxels = [1]\<rparr>,
            dd_roi = Some \<lparr>shape = [1, 1, 1], voxels = [1]\<rparr>,
            dd_input_metadata =
              [Meta [(''crop_params'', IntList [1, 2]), (''contrast'', Str ''T1w''),
                     (''seen_by'', Str ''im'')]],
            dd_gt_metadata =
              [Meta [(''gt_file'', Str ''lesion''), (''seen_by'', Str ''gt''),
                     (''contrast'', Str ''T1w''), (''crop_params'', IntList [1, 2])]],
            dd_roi_metadata =
              [Meta [(''crop_params'', IntList [1, 2]), (''seen_by'', Str ''roi'')]]\<rparr>"
  have r: "resolve_entry ?ds 0 = Inr (None, fst roi_crop_item, snd roi_crop_item)"
    by (simp add: resolve_entry_def slice_dataset_def patch_dataset_def list_get_def roi_crop_item_def)
  have p: "pick_rater tagging_env (fst roi_crop_item) ((), []) = Inr (fst roi_crop_item, (), [])"
    by (simp add: pick_rater_def roi_crop_item_def list_get_def)
  have t: "task ?ds = ''segmentation''" "\<not> soft_gt ?ds" "\<not> is_input_dropout ?ds"
    by (simp_all add: slice_dataset_def patch_dataset_def)
  from transform_call_order [OF tagging_fetch_roi_crop, THEN conjunct1]
  obtain entry seg0 roi seg w1 evs1 s_roi md_roi w2 s_input md_input w3 s_gt md_gt w4 d0 where
    1: "resolve_entry ?ds 0 = Inr (entry, seg0, roi)" and
    2: "pick_rater tagging_env seg0 ((), []) = Inr (seg, w1, evs1)" and
    3: "transform tagging_env (gt roi) (or_empty (gt_metadata roi)) ''roi'' w1 = ((s_roi, md_roi), w2)" and
    4: "transform tagging_env (Some (map Arr (input seg)))
        (update_metadata md_roi (map Meta (or_empty (input_metadata seg)))) ''im'' w2
        = ((s_input, md_input), w3)" and
    5: "if task ?ds = ''segmentation'' then
         (\<exists>s_gt0. transform tagging_env (gt seg) (update_metadata md_input (or_empty (gt_metadata seg)))
                     ''gt'' w3 = ((s_gt0, md_gt), w4) \<and>
                  s_gt = binarized tagging_env (soft_gt ?ds) s_gt0) \<and>
         transform_calls
           [TransformCall ''roi'' (Some [Arr (pixel 1)])
             [Meta [(''crop_params'', IntList [1, 2])]]
             [Meta [(''crop_params'', IntList [1, 2]), (''seen_by'', Str ''roi'')]],
            TransformCall ''im'' (Some [Arr (pixel 7)])
             [Meta [(''crop_params'', IntList [1, 2]), (''contrast'', Str ''T1w''),
                    (''seen_by'', Str ''roi'')]]
             [Meta [(''crop_params'', IntList [1, 2]), (''contrast'', Str ''T1w''),
                    (''seen_by'', Str ''im'')]],
            TransformCall ''gt'' (Some [Arr (pixel 1)])
             [Meta [(''gt_file'', Str ''lesion''), (''seen_by'', Str ''im''),
                    (''contrast'', Str ''T1w''), (''crop_params'', IntList [1, 2])]]
             [Meta [(''gt_file'', Str ''lesion''), (''seen_by'', Str ''gt''),
                    (''contrast'', Str ''T1w''), (''crop_params'', IntList [1, 2])]]] =
           [TransformCall ''roi'' (gt roi) (or_empty (gt_metadata roi)) md_roi,
            TransformCall ''im'' (Some (map Arr (input seg)))
              (update_metadata md_roi (map Meta (or_empty (input_metadata seg)))) md_input,
            TransformCall ''gt'' (gt seg)
              (update_metadata md_input (or_empty (gt_metadata seg))) md_gt]
       else
         w4 = w3 \<and> md_gt = update_metadata md_input (or_empty (gt_metadata seg)) \<and>
         (\<exists>label. classification_label seg = Inr label \<and> s_gt = Some label) \<and>
         transform_calls
           [TransformCall ''roi'' (Some [Arr (pixel 1)])
             [Meta [(''crop_params'', IntList [1, 2])]]
             [Meta [(''crop_params'', IntList [1, 2]), (''seen_by'', Str ''roi'')]],
            TransformCall ''im'' (Some [Arr (pixel 7)])
             [Meta [(''crop_params'', IntList [1, 2]), (''contrast'', Str ''T1w''),
                    (''seen_by'', Str ''roi'')]]
             [Meta [(''crop_params'', IntList [1, 2]), (''contrast'', Str ''T1w''),
                    (''seen_by'', Str ''im'')]],
            TransformCall ''gt'' (Some [Arr (pixel 1)])
             [Meta [(''gt_file'', Str ''lesion''), (''seen_by'', Str ''im''),
                    (''contrast'', Str ''T1w''), (''crop_params'', IntList [1, 2])]]
             [Meta [(''gt_file'', Str ''lesion''), (''seen_by'', Str ''gt''),
                    (''contrast'', Str ''T1w''), (''crop_params'', IntList [1, 2])]]] =
           [TransformCall ''roi'' (gt roi) (or_empty (gt_metadata roi)) md_roi,
            TransformCall ''im'' (Some (map Arr (input seg)))
              (update_metadata md_roi (map Meta (or_empty (input_metadata seg)))) md_input]" and
    6: "assemble entry \<lparr>stack_input = s_input, stack_gt = s_gt, stack_roi = s_roi,
                      metadata_input = md_input, metadata_gt = md_gt, metadata_roi = md_roi\<rparr>
        = Inr d0" and
    7: "(?d, ()) = (if is_input_dropout ?ds then dropout_input tagging_env d0 w4 else (d0, w4))"
    by blast
  from 1 r have e0: "entry = None" and "roi_crop_item = (seg0, roi)" by simp_all
  then have e: "seg0 = fst roi_crop_item" "roi = snd roi_crop_item"
    by (metis fst_conv, metis snd_conv)
  from 2 p e have s: "seg = fst roi_crop_item" by simp
  from 7 t have d: "d0 = ?d" by simp
  from 5 t obtain s_gt0 where
    g: "transform tagging_env (gt seg) (update_metadata md_input (or_empty (gt_metadata seg)))
          ''gt'' w3 = ((s_gt0, md_gt), w4)" and
    b: "s_gt = binarized tagging_env False s_gt0" and
    c: "[TransformCall ''roi'' (Some [Arr (pixel 1)])
             [Meta [(''crop_params'', IntList [1, 2])]]
             [Meta [(''crop_params'', IntList [1, 2]), (''seen_by'', Str ''roi'')]],
            TransformCall ''im'' (Some [Arr (pixel 7)])
             [Meta [(''crop_params'', IntList [1, 2]), (''contrast'', Str ''T1w''),
                    (''seen_by'', Str ''roi'')]]
             [Meta [(''crop_params'', IntList [1, 2]), (''contrast'', Str ''T1w''),
                    (''seen_by'', Str ''im'')]],
            TransformCall ''gt'' (Some [Arr (pixel 1)])
             [Meta [(''gt_file'', Str ''lesion''), (''seen_by'', Str ''im''),
                    (''contrast'', Str ''T1w''), (''crop_params'', IntList [1, 2])]]
             [Meta [(''gt_file'', Str ''lesion''), (''seen_by'', Str ''gt''),
                    (''contrast'', Str ''T1w''), (''crop_params'', IntList [1, 2])]]] =
           [TransformCall ''roi'' (gt roi) (or_empty (gt_metadata roi)) md_roi,
            TransformCall ''im'' (Some (map Arr (input seg)))
              (update_metadata md_roi (map Meta (or_empty (input_metadata seg)))) md_input,
            TransformCall ''gt'' (gt seg)
              (update_metadata md_input (or_empty (gt_metadata seg))) md_gt]"
    by (auto simp: transform_calls_def)
  from c have m: "md_roi = [Meta [(''crop_params'', IntList [1, 2]), (''seen_by'', Str ''roi'')]]"
    "update_metadata md_roi (map Meta (or_empty (input_metadata seg))) =
       [Meta [(''crop_params'', IntList [1, 2]), (''contrast'', Str ''T1w''),
              (''seen_by'', Str ''roi'')]]"
    "md_input = [Meta [(''crop_params'', IntList [1, 2]), (''contrast'', Str ''T1w''),
                       (''seen_by'', Str ''im'')]]"
    "update_metadata md_input (or_empty (gt_metadata seg)) =
       [Meta [(''gt_file'', Str ''lesion''), (''seen_by'', Str ''im''),
              (''contrast'', Str ''T1w''), (''crop_params'', IntList [1, 2])]]"
    "md_gt = [Meta [(''gt_file'', Str ''lesion''), (''seen_by'', Str ''gt''),
                    (''contrast'', Str ''T1w''), (''crop_params'', IntList [1, 2])]]"
    by simp_all
  show ?thesis
    apply (rule exI [of _ s_roi], rule exI [of _ md_roi], rule exI [of _ s_input])
    apply (rule exI [of _ md_input], rule exI [of _ s_gt0], rule exI [of _ md_gt])
    using 3 4 g m 6 unfolding e0 e s d b by (intro conjI) simp_all
qed





lemma slice_bounds_clip:
  assumes "0 \<le> n" "0 \<le> lo" "lo \<le> hi"
  shows "slice_bounds n lo hi = (nat (min lo n), nat (min hi n))"
  using assms by (auto simp: slice_bounds_def adjust_bound_def Let_def max_def min_def)

lemma crop_clips:
  assumes "shape t = [C, H, W]" "0 \<le> H" "0 \<le> W"
    and "0 \<le> x_min c" "x_min c \<le> x_max c" "0 \<le> y_min c" "y_min c \<le> y_max c"
  shows "\<exists>r. crop t (x_min c) (x_max c) (y_min c) (y_max c) = Inr r \<and> shape r = clipped_shape c t"
proof -
  have bx: "slice_bounds H (x_min c) (x_max c) = (nat (min (x_min c) H), nat (min (x_max c) H))"
    using assms(2,4,5) by (rule slice_bounds_clip)
  have by': "slice_bounds W (y_min c) (y_max c) = (nat (min (y_min c) W), nat (min (y_max c) W))"
    using assms(3,6,7) by (rule slice_bounds_clip)
  have ix: "int (nat (min (x_max c) H) - nat (min (x_min c) H)) = min (x_max c) H - min (x_min c) H"
    using assms(2,4,5) by (simp add: min_def)
  have iy: "int (nat (min (y_max c) W) - nat (min (y_min c) W)) = min (y_max c) W - min (y_min c) W"
    using assms(3,6,7) by (simp add: min_def)
  show ?thesis
    by (simp only: crop_def clipped_shape_def assms(1) list.case bx by' Let_def prod.case ix iy
        ndarray.simps sum.inject simp_thms ex_simps)
qed

lemma set_coord_dicts:
  "list_all is_dict ms \<Longrightarrow> \<exists>ms'. set_coord c ms = Inr ms'"
proof (induction ms)
  case Nil
  then show ?case by simp
next
  case (Cons m ms)
  then obtain d where "m = Meta d" by (cases m) (simp_all add: is_dict_def)
  with Cons show ?case by auto
qed

lemma planes_or_noneD:
  assumes "planes_or_none (Some t)"
  shows "\<exists>C H W. shape t = [C, H, W] \<and> 0 < C \<and> 0 \<le> H \<and> 0 \<le> W"
  using assms by (auto simp: planes_or_none_def split: list.splits)

lemma crop_stack:
  assumes "planes_or_none (Some t)"
    and "0 \<le> x_min c" "x_min c \<le> x_max c" "0 \<le> y_min c" "y_min c \<le> y_max c"
  shows "\<exists>z. zeros_like_stack t (x_max c - x_min c) (y_max c - y_min c) = Inr z \<and>
           (\<exists>r. crop_loop t z c = Inr r \<and> shape r = clipped_shape c t)"
proof -
  from planes_or_noneD [OF assms(1)] obtain C H W where
    sh: "shape t = [C, H, W]" "0 < C" "0 \<le> H" "0 \<le> W" by blast
  from sh assms(2-5) obtain z where
    z: "zeros_like_stack t (x_max c - x_min c) (y_max c - y_min c) = Inr z"
    by (auto simp: zeros_like_stack_def zeros_def)
  from crop_clips [OF sh(1) sh(3) sh(4) assms(2-5)] obtain r where
    "crop t (x_min c) (x_max c) (y_min c) (y_max c) = Inr r" "shape r = clipped_shape c t" by blast
  then have "crop_loop t z c = Inr r \<and> shape r = clipped_shape c t"
    using sh by (simp add: crop_loop_def tensor_len_def)
  with z show ?thesis by blast
qed

lemma crop_optional_stack:
  assumes "planes_or_none s"
    and "0 \<le> x_min c" "x_min c \<le> x_max c" "0 \<le> y_min c" "y_min c \<le> y_max c"
  shows "\<exists>z. zeros_optional s (x_max c - x_min c) (y_max c - y_min c) = Inr z \<and>
           (\<exists>r. crop_optional s z c = Inr r \<and> map_option shape r = map_option (clipped_shape c) s)"
proof (cases s)
  case None
  then show ?thesis by (simp add: zeros_optional_def crop_optional_def)
next
  case (Some t)
  from crop_stack [OF assms(1) [unfolded Some] assms(2-5)] obtain z r where
    "zeros_like_stack t (x_max c - x_min c) (y_max c - y_min c) = Inr z"
    "crop_loop t z c = Inr r" "shape r = clipped_shape c t" by blast
  then show ?thesis by (simp add: Some zeros_optional_def crop_optional_def)
qed

text \<open>
  Claim C6, as amended. In a patch-mode fetch, whether or not the crop window
  \<open>[x_min:x_max, y_min:y_max]\<close> fits inside the transformed tensors, patch extraction
  raises no error: for stacks of one plane or more and a window with
  \<open>0 \<le> x_min \<le> x_max\<close> and \<open>0 \<le> y_min \<le> y_max\<close>, the sample is returned and its
  input, ground-truth and ROI tensors have the shape of the window clipped to the
  tensor, \<open>(C, min x_max H - min x_min H, min y_max W - min y_min W)\<close>, which is
  smaller than the patch when the window does not fit.
\<close>

theorem crop_window_is_clipped:
  assumes "stack_input s = Some t" "planes_or_none (Some t)"
    and "planes_or_none (stack_gt s)" "planes_or_none (stack_roi s)"
    and "list_all is_dict (metadata_input s)"
    and "0 \<le> x_min c" "x_min c \<le> x_max c" "0 \<le> y_min c" "y_min c \<le> y_max c"
  shows "\<exists>d. assemble (Some c) s = Inr d \<and>
           map_option shape (dd_input d) = Some (clipped_shape c t) \<and>
           map_option shape (dd_gt d) = map_option (clipped_shape c) (stack_gt s) \<and>
           map_option shape (dd_roi d) = map_option (clipped_shape c) (stack_roi s)"
proof -
  from set_coord_dicts [OF assms(5)] obtain md where md: "set_coord c (metadata_input s) = Inr md"
    by blast
  from crop_stack [OF assms(2) assms(6-9)] obtain z_in r_in where
    i: "zeros_like_stack t (x_max c - x_min c) (y_max c - y_min c) = Inr z_in"
      "crop_loop t z_in c = Inr r_in" "shape r_in = clipped_shape c t" by blast
  from crop_optional_stack [OF assms(3) assms(6-9)] obtain z_gt r_gt where
    g: "zeros_optional (stack_gt s) (x_max c - x_min c) (y_max c - y_min c) = Inr z_gt"
      "crop_optional (stack_gt s) z_gt c = Inr r_gt"
      "map_option shape r_gt = map_option (clipped_shape c) (stack_gt s)" by blast
  from crop_optional_stack [OF assms(4) assms(6-9)] obtain z_roi r_roi where
    r: "zeros_optional (stack_roi s) (x_max c - x_min c) (y_max c - y_min c) = Inr z_roi"
      "crop_optional (stack_roi s) z_roi c = Inr r_roi"
      "map_option shape r_roi = map_option (clipped_shape c) (stack_roi s)" by blast
  show ?thesis
    using md i g r assms(1) by (simp add: assemble_def Let_def)
qed

text \<open>The theorem at a 2 by 2 tensor and the window \<open>[0:4, 0:4]\<close>.\<close>

theorem crop_window_is_clipped_witness:
  "planes_or_none (stack_input small_stacks) \<and>
   (\<exists>d. assemble (Some full_window) small_stacks = Inr d \<and>
      map_option shape (dd_input d) = Some [1, 2, 2] \<and> dd_gt d = None \<and> dd_roi d = None)"
proof -
  let ?t = "\<lparr>shape = [1, 2, 2], voxels = [0, 0, 0, 0]\<rparr>"
  have 1: "stack_input small_stacks = Some ?t" by (simp add: small_stacks_def)
  have 2: "planes_or_none (Some ?t)" by (simp add: planes_or_none_def)
  have 3: "planes_or_none (stack_gt small_stacks)" "planes_or_none (stack_roi small_stacks)"
    by (simp_all add: small_stacks_def planes_or_none_def)
  have 4: "list_all is_dict (metadata_input small_stacks)"
    by (simp add: small_stacks_def is_dict_def)
  have 5: "0 \<le> x_min full_window" "x_min full_window \<le> x_max full_window"
    "0 \<le> y_min full_window" "y_min full_window \<le> y_max full_window"
    by (simp_all add: full_window_def)
  have 6: "clipped_shape full_window ?t = [1, 2, 2]"
    by (simp add: clipped_shape_def full_window_def)
  from crop_window_is_clipped [OF 1 2 3 4 5] obtain d where
    "assemble (Some full_window) small_stacks = Inr d"
    "map_option shape (dd_input d) = Some (clipped_shape full_window ?t)"
    "map_option shape (dd_gt d) = map_option (clipped_shape full_window) (stack_gt small_stacks)"
    "map_option shape (dd_roi d) = map_option (clipped_shape full_window) (stack_roi small_stacks)"
    by blast
  then have "assemble (Some full_window) small_stacks = Inr d \<and>
      map_option shape (dd_input d) = Some [1, 2, 2] \<and> dd_gt d = None \<and> dd_roi d = None"
    by (simp add: 6 small_stacks_def)
  then show ?thesis using 1 2 by auto
qed

lemma one_patch_built:
  "prepare_indices (patch_dataset [4, 4] [4, 4] [(zero_slice 4 4, zero_slice 4 4)]) = Inr one_patch_dataset"
  by (simp add: one_patch_dataset_def prepare_indices_def handler_patches_def patch_dataset_def
      zero_slice_def py_range_def range_len_def y_loop_def clamp_start_def upt_conv_Cons)

text \<open>
  The claim as stated fails: the index is built for a handler of shape \<open>(4, 4)\<close>, the
  pipeline resamples to 2 by 2 pixels, the window \<open>[0:4, 0:4]\<close> does not fit the
  transformed tensor, and the fetch returns a sample with an input of shape
  \<open>(1, 2, 2)\<close> instead of failing.
\<close>

theorem window_misfit_counterexample:
  "prepare_indices (patch_dataset [4, 4] [4, 4] [(zero_slice 4 4, zero_slice 4 4)]) = Inr one_patch_dataset \<and>
   getitem resampling_env one_patch_dataset 0 () =
     Inr (\<lparr>dd_input = Some \<lparr>shape = [1, 2, 2], voxels = [0, 0, 0, 0]\<rparr>,
           dd_gt = None, dd_roi = None,
           dd_input_metadata = [Meta [(''coord'', IntList [0, 4, 0, 4])]],
           dd_gt_metadata = [], dd_roi_metadata = []\<rparr>,
          (),
          [TransformCall ''roi'' None [] [],
           TransformCall ''im'' (Some [Arr \<lparr>shape = [4, 4], voxels = replicate 16 0\<rparr>])
             [Meta []] [Meta []],
           TransformCall ''gt'' None [] []])"
proof -
  have "getitem resampling_env one_patch_dataset 0 () =
     Inr (\<lparr>dd_input = Some \<lparr>shape = [1, 2, 2], voxels = [0, 0, 0, 0]\<rparr>,
           dd_gt = None, dd_roi = None,
           dd_input_metadata = [Meta [(''coord'', IntList [0, 4, 0, 4])]],
           dd_gt_metadata = [], dd_roi_metadata = []\<rparr>,
          (),
          [TransformCall ''roi'' None [] [],
           TransformCall ''im'' (Some [Arr \<lparr>shape = [4, 4], voxels = replicate 16 0\<rparr>])
             [Meta []] [Meta []],
           TransformCall ''gt'' None [] []])"
    by (simp add: getitem_def resolve_entry_def one_patch_dataset_def patch_dataset_def
        list_get_def pick_rater_def zero_slice_def resampling_env_def stacking_env_def
        run_transforms_def call_transform_def or_empty_def assemble_def Let_def
        zeros_like_stack_def zeros_def zeros_optional_def crop_optional_def crop_loop_def
        tensor_len_def crop_def slice_bounds_def adjust_bound_def upt_conv_Cons
        numeral_2_eq_2)
  with one_patch_built show ?thesis by simp
qed
subsection \<open>The fetch at an index\<close>

text \<open>
  The steps of a fetch after the index check, one by one: the lookup of an entry that
  stands for a bundle, the rater choice, the transform calls, the assembly of the
  sample.
\<close>

lemma entry_bundle_resolve:
  assumes "0 \<le> i" "i < int (len self)" "entry_bundle self (indexes self ! nat i) = Some b"
  shows "resolve_entry self i = Inr b"
proof (cases "indexes self ! nat i")
  case (Patch c)
  with assms(3) have p: "is_2d_patch self" and h: "0 \<le> handler_index c"
    "handler_index c < int (length (handlers self))"
    by (simp_all add: entry_bundle_def split: if_splits)
  obtain seg roi where hd: "handlers self ! nat (handler_index c) = (seg, roi)"
    by (cases "handlers self ! nat (handler_index c)")
  with assms(3) Patch p h have b: "b = (Some c, seg, roi)" by (simp add: entry_bundle_def)
  show ?thesis
    using assms(1,2) Patch p h hd b
    by (simp add: resolve_entry_def len_def list_get_inside)
next
  case (Item pr)
  obtain seg roi where pr: "pr = (seg, roi)" by (cases pr)
  with assms(3) Item have p: "\<not> is_2d_patch self" and b: "b = (None, seg, roi)"
    by (simp_all add: entry_bundle_def split: if_splits)
  show ?thesis
    using assms(1,2) Item pr p b
    by (simp add: resolve_entry_def len_def list_get_inside)
qed

lemma rater_loop_ok:
  assumes "0 \<le> r" "nat r < n"
  shows "list_all (rated_by n) gs \<Longrightarrow> list_all (rated_meta_by n) ms \<Longrightarrow> length ms = length gs \<Longrightarrow>
         \<exists>gs' ms'. rater_loop r gs (Some ms) = Inr (gs', ms')"
proof (induction gs arbitrary: ms)
  case Nil
  then show ?case by simp
next
  case (Cons g gs)
  then obtain m rest where ms: "ms = m # rest" by (cases ms) auto
  from Cons.prems obtain rs where g: "g = Raters rs" "n \<le> length rs"
    by (cases g) (simp_all add: rated_by_def)
  from Cons.prems ms obtain mm where m: "m = RaterMetas mm" "n \<le> length mm"
    by (cases m) (simp_all add: rated_meta_by_def)
  from assms g m have l: "list_get rs r = Inr (rs ! nat r)" "list_get mm r = Inr (mm ! nat r)"
    by (simp_all add: list_get_def)
  from Cons.IH [of rest] Cons.prems ms obtain gs' ms' where
    "rater_loop r gs (Some rest) = Inr (gs', ms')" by auto
  then show ?case
    by (simp add: ms g m l rater_of_def rater_meta_of_def next_meta_def)
qed

lemma pick_rater_ok:
  assumes "raters_ok env w seg0"
  shows "\<exists>seg w1 evs1. pick_rater env seg0 (w, []) = Inr (seg, w1, evs1)"
proof (cases "gt seg0")
  case None
  then show ?thesis by (simp add: pick_rater_def)
next
  case (Some classes)
  with assms obtain g rest where cl: "classes = g # rest"
    by (cases classes) (simp_all add: raters_ok_def)
  show ?thesis
  proof (cases g)
    case (Arr a)
    with Some cl show ?thesis by (simp add: pick_rater_def list_get_0)
  next
    case (Raters rs)
    obtain r w' where rw: "randint env 0 (int (length rs) - 1) w = (r, w')"
      by (cases "randint env 0 (int (length rs) - 1) w")
    from assms Some cl Raters rw obtain ms where
      ne: "rs \<noteq> []" and r: "0 \<le> r" "r \<le> int (length rs) - 1" and
      a: "list_all (rated_by (length rs)) rest" and
      md: "gt_metadata seg0 = Some ms" and
      len: "length ms = Suc (length rest)" and
      b: "list_all (rated_meta_by (length rs)) ms"
      by (auto simp: raters_ok_def split: option.splits)
    from r have rn: "nat r < length rs" by linarith
    have a': "list_all (rated_by (length rs)) classes"
      using a cl Raters by (simp add: rated_by_def)
    from len cl have len': "length ms = length classes" by simp
    from rater_loop_ok [OF r(1) rn a' b len'] obtain gs' ms' where
      "rater_loop r classes (Some ms) = Inr (gs', ms')" by blast
    then show ?thesis
      using Some cl Raters ne rw md
      by (simp add: pick_rater_def list_get_0)
  qed
qed

lemma scalar_label_classified:
  "scalar_label seg \<Longrightarrow> \<exists>label. classification_label seg = Inr label"
  by (auto simp: scalar_label_def classification_label_def list_get_0 from_numpy_expand1_def
      split: option.splits list.splits slice_data.splits)

lemma assemble_image_stacks:
  assumes "image_stacks s" "ordered_window c"
  shows "\<exists>d. assemble (Some c) s = Inr d"
proof -
  from assms(1) obtain t where t: "stack_input s = Some t" "planes_or_none (Some t)"
    and g: "planes_or_none (stack_gt s)" and r: "planes_or_none (stack_roi s)"
    and m: "list_all is_dict (metadata_input s)"
    by (auto simp: image_stacks_def)
  from assms(2) have w: "0 \<le> x_min c" "x_min c \<le> x_max c" "0 \<le> y_min c" "y_min c \<le> y_max c"
    by (simp_all add: ordered_window_def)
  from set_coord_dicts [OF m] obtain md where md: "set_coord c (metadata_input s) = Inr md"
    by blast
  from crop_stack [OF t(2) w] obtain z_in r_in where
    i: "zeros_like_stack t (x_max c - x_min c) (y_max c - y_min c) = Inr z_in"
      "crop_loop t z_in c = Inr r_in" by blast
  from crop_optional_stack [OF g w] obtain z_gt r_gt where
    g': "zeros_optional (stack_gt s) (x_max c - x_min c) (y_max c - y_min c) = Inr z_gt"
      "crop_optional (stack_gt s) z_gt c = Inr r_gt" by blast
  from crop_optional_stack [OF r w] obtain z_roi r_roi where
    r': "zeros_optional (stack_roi s) (x_max c - x_min c) (y_max c - y_min c) = Inr z_roi"
      "crop_optional (stack_roi s) z_roi c = Inr r_roi" by blast
  show ?thesis
    using md i g' r' t(1) by (simp add: assemble_def Let_def)
qed

lemma getitem_assembled:
  assumes "resolve_entry self index = Inr (entry, seg0, roi)"
    and "pick_rater env seg0 (w, []) = Inr (seg, st1)"
    and "run_transforms env self seg roi st1 = Inr (s, st2)"
    and "assemble entry s = Inr d"
  shows "\<exists>r. getitem env self index w = Inr r"
proof -
  obtain w2 evs where st2: "st2 = (w2, evs)" by (cases st2)
  show ?thesis
    using assms unfolding st2
    by (simp add: getitem_def split: prod.splits)
qed

lemma run_transforms_classification:
  assumes "classification_label seg = Inr label"
  shows "\<exists>r. run_transforms env self seg roi st = Inr r"
proof (cases "task self = ''segmentation''")
  case True
  then show ?thesis by (rule run_transforms_segmentation)
next
  case False
  with assms show ?thesis
    by (simp add: run_transforms_def call_transform_def Let_def split: prod.splits)
qed

lemma getitem_returns:
  assumes i: "0 \<le> index" "index < int (len self)"
    and b: "entry_bundle self (indexes self ! nat index) = Some (entry, seg0, roi)"
    and r: "raters_ok env w seg0"
    and t: "task self = ''segmentation'' \<or>
            (entry = None \<and>
             (\<forall>seg st1. pick_rater env seg0 (w, []) = Inr (seg, st1) \<longrightarrow> scalar_label seg))"
    and p: "\<forall>c. entry = Some c \<longrightarrow> ordered_window c \<and>
              (\<forall>seg st1 s st2. pick_rater env seg0 (w, []) = Inr (seg, st1) \<and>
                   run_transforms env self seg roi st1 = Inr (s, st2) \<longrightarrow> image_stacks s)"
  shows "\<exists>r. getitem env self index w = Inr r"
proof -
  have 1: "resolve_entry self index = Inr (entry, seg0, roi)"
    by (rule entry_bundle_resolve [OF i b])
  from pick_rater_ok [OF r] obtain seg w1 evs1 where
    2: "pick_rater env seg0 (w, []) = Inr (seg, w1, evs1)" by blast
  have "\<exists>res. run_transforms env self seg roi (w1, evs1) = Inr res"
  proof (cases "task self = ''segmentation''")
    case True
    then show ?thesis by (rule run_transforms_segmentation)
  next
    case False
    with t 2 have "scalar_label seg" by blast
    from scalar_label_classified [OF this] obtain label where
      "classification_label seg = Inr label" by blast
    then show ?thesis by (rule run_transforms_classification)
  qed
  then obtain s st2 where 3: "run_transforms env self seg roi (w1, evs1) = Inr (s, st2)"
    by (metis prod.exhaust)
  have "\<exists>d. assemble entry s = Inr d"
  proof (cases entry)
    case None
    then show ?thesis by (simp add: assemble_def)
  next
    case (Some c)
    with p 2 3 have "ordered_window c" "image_stacks s" by blast+
    then show ?thesis unfolding Some by (intro assemble_image_stacks)
  qed
  then obtain d where 4: "assemble entry s = Inr d" by blast
  show ?thesis by (rule getitem_assembled [OF 1 2 3 4])
qed

text \<open>
  Every entry that \<open>prepare_indices\<close> emits stands for a bundle, and its window is
  ordered.
\<close>

lemma built_entries_fetchable:
  assumes lens: "length_2D self = [Lx, Ly]" and strides: "stride_2D self = [Sx, Sy]"
    and ok: "\<forall>h \<in> set (handlers self). tiling_ok [Lx, Ly] [Sx, Sy] h"
    and empty: "indexes self = []" and patch: "is_2d_patch self"
    and built: "prepare_indices self = Inr self'" and e: "e \<in> set (indexes self')"
  shows "\<exists>c. e = Patch c \<and> ordered_window c \<and>
           entry_bundle self' e =
             Some (Some c, fst (handlers self ! nat (handler_index c)),
                   snd (handlers self ! nat (handler_index c)))"
proof -
  let ?hs = "handlers self"
  from built lens strides empty obtain cs where
    cs: "prepare_loop [Lx, Ly] [Sx, Sy] 0 ?hs = Inr cs" and
    self': "self' = self\<lparr>indexes := map Patch cs\<rparr>"
    by (auto simp: prepare_indices_def bind_eq_Inr)
  from e self' obtain c where c: "e = Patch c" "c \<in> set cs" by auto
  from prepare_loop_sound [OF cs c(2)] obtain j t where
    j: "j < length ?hs" and t: "handler_patches [Lx, Ly] [Sx, Sy] (int (0 + j)) (?hs ! j) = Inr t"
    and ct: "c \<in> set t" by blast
  from j ok have okj: "tiling_ok [Lx, Ly] [Sx, Sy] (?hs ! j)" by simp
  from t handler_patches_spec [OF okj, of "int j"] ct
  have "c \<in> set (spec_handler_tiles [Lx, Ly] [Sx, Sy] (int j) (?hs ! j))" by simp
  then obtain x y where
    x: "x \<in> set (spec_starts (handler_shape (?hs ! j) ! 0) Lx Sx)" and
    y: "y \<in> set (spec_starts (handler_shape (?hs ! j) ! 1) Ly Sy)" and
    ceq: "c = \<lparr>x_min = x, x_max = x + Lx, y_min = y, y_max = y + Ly, handler_index = int j\<rparr>"
    unfolding handler_tiles_member by blast
  from tiling_okD [OF okj] starts_inside [OF _ x] starts_inside [OF _ y]
  have b: "0 \<le> x" "0 \<le> y" "0 \<le> Lx" "0 \<le> Ly" by simp_all
  then have w: "ordered_window c" by (simp add: ordered_window_def ceq)
  have "entry_bundle self' e =
      Some (Some c, fst (?hs ! nat (handler_index c)), snd (?hs ! nat (handler_index c)))"
    using j patch by (simp add: entry_bundle_def c(1) self' ceq split: prod.splits)
  with c(1) w show ?thesis by blast
qed

text \<open>
  Claim C7, as amended. A fetch raises \<open>IndexError\<close> for every integer index below
  \<open>- len\<close> or at least \<open>len\<close>. For an index in \<open>[- len, 0)\<close> it raises nothing for
  the index: as Python list indexing does, it behaves as the fetch at \<open>index + len\<close>.
  For an index in \<open>[0, len)\<close> the lookup succeeds, with and without patching, whenever
  the entry stands for a bundle (without patching a pair of bundles, with patching a
  patch record that names a handler), and it yields that bundle. The fetch then returns
  a sample when the ground truth is absent, has one rater, or has for every class at
  least the raters and rater metadata of the first class with a draw of
  \<open>random.randint\<close> inside its bounds; when the task is segmentation, or, without
  patching, the label of the chosen rater is an array of one element; and when, with
  patching, the window is ordered and the stacks that the pipeline returned in this
  fetch are image stacks with dicts as input metadata.
\<close>

theorem fetch_index_range:
  "(index < - int (len self) \<or> int (len self) \<le> index \<longrightarrow>
      getitem env self index w = Inl IndexError) \<and>
   (- int (len self) \<le> index \<and> index < 0 \<longrightarrow>
      getitem env self index w = getitem env self (index + int (len self)) w) \<and>
   (0 \<le> index \<and> index < int (len self) \<and>
    entry_bundle self (indexes self ! nat index) = Some (entry, seg0, roi) \<longrightarrow>
      resolve_entry self index = Inr (entry, seg0, roi)) \<and>
   (0 \<le> index \<and> index < int (len self) \<and>
    entry_bundle self (indexes self ! nat index) = Some (entry, seg0, roi) \<and>
    raters_ok env w seg0 \<and>
    (task self = ''segmentation'' \<or>
     (entry = None \<and>
      (\<forall>seg st1. pick_rater env seg0 (w, []) = Inr (seg, st1) \<longrightarrow> scalar_label seg))) \<and>
    (\<forall>c. entry = Some c \<longrightarrow> ordered_window c \<and>
       (\<forall>seg st1 s st2. pick_rater env seg0 (w, []) = Inr (seg, st1) \<and>
            run_transforms env self seg roi st1 = Inr (s, st2) \<longrightarrow> image_stacks s)) \<longrightarrow>
      (\<exists>r. getitem env self index w = Inr r))"
proof (intro conjI impI)
  assume "index < - int (len self) \<or> int (len self) \<le> index"
  then show "getitem env self index w = Inl IndexError"
    by (simp add: getitem_def resolve_entry_outside)
next
  assume "- int (len self) \<le> index \<and> index < 0"
  then show "getitem env self index w = getitem env self (index + int (len self)) w"
    by (simp add: getitem_def resolve_entry_negative)
next
  assume "0 \<le> index \<and> index < int (len self) \<and>
    entry_bundle self (indexes self ! nat index) = Some (entry, seg0, roi)"
  then show "resolve_entry self index = Inr (entry, seg0, roi)"
    by (intro entry_bundle_resolve) simp_all
next
  assume a: "0 \<le> index \<and> index < int (len self) \<and>
    entry_bundle self (indexes self ! nat index) = Some (entry, seg0, roi) \<and>
    raters_ok env w seg0 \<and>
    (task self = ''segmentation'' \<or>
     (entry = None \<and>
      (\<forall>seg st1. pick_rater env seg0 (w, []) = Inr (seg, st1) \<longrightarrow> scalar_label seg))) \<and>
    (\<forall>c. entry = Some c \<longrightarrow> ordered_window c \<and>
       (\<forall>seg st1 s st2. pick_rater env seg0 (w, []) = Inr (seg, st1) \<and>
            run_transforms env self seg roi st1 = Inr (s, st2) \<longrightarrow> image_stacks s))"
  show "\<exists>r. getitem env self index w = Inr r"
    by (rule getitem_returns [of index self entry seg0 roi env w]) (use a in blast)+
qed

text \<open>
  The claim as stated fails at index \<open>- 1\<close>, outside \<open>[0, 2)\<close>: no \<open>IndexError\<close>,
  the fetch returns the sample of the last entry.
\<close>

theorem negative_index_counterexample:
  "len (slice_dataset [(zero_slice 2 2, zero_slice 2 2), (two_rater_slice, zero_slice 1 1)]) = 2 \<and>
   getitem stacking_env (slice_dataset [(zero_slice 2 2, zero_slice 2 2), (two_rater_slice, zero_slice 1 1)]) (- 1) () \<noteq> Inl IndexError \<and>
   getitem stacking_env (slice_dataset [(zero_slice 2 2, zero_slice 2 2), (two_rater_slice, zero_slice 1 1)]) (- 1) () =
   getitem stacking_env (slice_dataset [(zero_slice 2 2, zero_slice 2 2), (two_rater_slice, zero_slice 1 1)]) 1 ()"
proof -
  let ?ds = "slice_dataset [(zero_slice 2 2, zero_slice 2 2), (two_rater_slice, zero_slice 1 1)]"
  have l: "len ?ds = 2" by (simp add: len_def slice_dataset_def)
  have "resolve_entry ?ds (- 1) = resolve_entry ?ds 1"
    by (simp add: resolve_entry_def slice_dataset_def patch_dataset_def list_get_def)
  then have "getitem stacking_env ?ds (- 1) () = getitem stacking_env ?ds 1 ()"
    by (simp add: getitem_def)
  then show ?thesis using l stacking_fetch_last by simp
qed

text \<open>
  A dataset with patching whose handler has two classes annotated by two raters: index
  building emits its one patch, and the fetch at index 0 returns the sample of rater 1.
\<close>

lemma two_rater_patch_built:
  "prepare_indices (patch_dataset [1, 1] [1, 1] [(two_rater_slice, zero_slice 1 1)]) =
     Inr two_rater_patch_dataset"
  by (simp add: two_rater_patch_dataset_def prepare_indices_def handler_patches_def
      patch_dataset_def two_rater_slice_def pixel_def py_range_def range_len_def y_loop_def
      clamp_start_def upt_conv_Cons)

lemma two_rater_patch_fetch:
  "getitem stacking_env two_rater_patch_dataset 0 () =
     Inr (\<lparr>dd_input = Some \<lparr>shape = [1, 1, 1], voxels = [7]\<rparr>,
           dd_gt = Some \<lparr>shape = [2, 1, 1], voxels = [1, 1]\<rparr>, dd_roi = None,
           dd_input_metadata = [Meta [(''coord'', IntList [0, 1, 0, 1])]],
           dd_gt_metadata = [Meta [(''rater'', Str ''r1'')], Meta [(''rater'', Str ''r1'')]],
           dd_roi_metadata = []\<rparr>,
          (),
          [RandInt 0 1 1, TransformCall ''roi'' None [] [],
           TransformCall ''im'' (Some [Arr (pixel 7)]) [Meta []] [Meta []],
           TransformCall ''gt'' (Some [Arr (pixel 1), Arr (pixel 1)])
             [Meta [(''rater'', Str ''r1'')], Meta [(''rater'', Str ''r1'')]]
             [Meta [(''rater'', Str ''r1'')], Meta [(''rater'', Str ''r1'')]]])"
  by (simp add: getitem_def resolve_entry_def two_rater_patch_dataset_def patch_dataset_def
      list_get_def pick_rater_def two_rater_slice_def zero_slice_def stacking_env_def
      rater_of_def rater_meta_of_def next_meta_def
      run_transforms_def call_transform_def or_empty_def stack_arrays_def assemble_def
      pixel_def Let_def
      zeros_like_stack_def zeros_def zeros_optional_def crop_optional_def crop_loop_def
      tensor_len_def crop_def slice_bounds_def adjust_bound_def upt_conv_Cons
      numeral_2_eq_2)

text \<open>
  The theorem on that dataset, at the indices 1, \<open>- 2\<close>, \<open>- 1\<close> and 0: with patching
  and two raters the lookup at index 0 yields the handler, and the fetch returns.
\<close>

theorem fetch_index_range_witness:
  "getitem stacking_env two_rater_patch_dataset 1 () = Inl IndexError \<and>
   getitem stacking_env two_rater_patch_dataset (- 2) () = Inl IndexError \<and>
   getitem stacking_env two_rater_patch_dataset (- 1) () =
     getitem stacking_env two_rater_patch_dataset 0 () \<and>
   resolve_entry two_rater_patch_dataset 0 =
     Inr (Some \<lparr>x_min = 0, x_max = 1, y_min = 0, y_max = 1, handler_index = 0\<rparr>,
          two_rater_slice, zero_slice 1 1) \<and>
   (\<exists>r. getitem stacking_env two_rater_patch_dataset 0 () = Inr r)"
proof -
  let ?ds = "two_rater_patch_dataset"
  let ?c = "\<lparr>x_min = 0, x_max = 1, y_min = 0, y_max = 1, handler_index = 0\<rparr>"
  let ?seg = "two_rater_slice\<lparr>gt := Some [Arr (pixel 1), Arr (pixel 1)],
            gt_metadata := Some [Meta [(''rater'', Str ''r1'')], Meta [(''rater'', Str ''r1'')]]\<rparr>"
  have l: "len ?ds = 1" by (simp add: len_def two_rater_patch_dataset_def)
  have b: "entry_bundle ?ds (indexes ?ds ! nat 0) = Some (Some ?c, two_rater_slice, zero_slice 1 1)"
    by (simp add: entry_bundle_def two_rater_patch_dataset_def patch_dataset_def)
  have r: "raters_ok stacking_env () two_rater_slice"
    by (simp add: raters_ok_def two_rater_slice_def stacking_env_def rated_by_def rated_meta_by_def)
  have t: "task ?ds = ''segmentation''"
    by (simp add: two_rater_patch_dataset_def patch_dataset_def)
  have w: "ordered_window ?c" by (simp add: ordered_window_def)
  have p: "pick_rater stacking_env two_rater_slice ((), []) = Inr (?seg, (), [RandInt 0 1 1])"
    by (simp add: pick_rater_def two_rater_slice_def stacking_env_def list_get_def rater_of_def
        rater_meta_of_def next_meta_def Let_def)
  have s: "image_stacks s"
    if "run_transforms stacking_env ?ds ?seg (zero_slice 1 1) ((), [RandInt 0 1 1]) = Inr (s, st2)"
    for s st2
    using that
    by (auto simp: run_transforms_def call_transform_def two_rater_patch_dataset_def
        patch_dataset_def two_rater_slice_def zero_slice_def stacking_env_def stack_arrays_def
        or_empty_def pixel_def Let_def image_stacks_def planes_or_none_def is_dict_def)
  have h: "\<forall>c. Some ?c = Some c \<longrightarrow> ordered_window c \<and>
       (\<forall>seg st1 s st2. pick_rater stacking_env two_rater_slice ((), []) = Inr (seg, st1) \<and>
            run_transforms stacking_env ?ds seg (zero_slice 1 1) st1 = Inr (s, st2) \<longrightarrow>
            image_stacks s)"
    using w s unfolding p by auto
  from fetch_index_range [of 1 ?ds stacking_env "()"]
  have 1: "getitem stacking_env ?ds 1 () = Inl IndexError" using l by simp
  from fetch_index_range [of "- 2" ?ds stacking_env "()"]
  have 2: "getitem stacking_env ?ds (- 2) () = Inl IndexError" using l by simp
  from fetch_index_range [of "- 1" ?ds stacking_env "()"]
  have 3: "getitem stacking_env ?ds (- 1) () = getitem stacking_env ?ds 0 ()" using l by simp
  note f = fetch_index_range [of 0 ?ds stacking_env "()" "Some ?c" two_rater_slice "zero_slice 1 1"]
  have 4: "resolve_entry ?ds 0 = Inr (Some ?c, two_rater_slice, zero_slice 1 1)"
    using f [THEN conjunct2, THEN conjunct2, THEN conjunct1] l b by simp
  have 5: "\<exists>r. getitem stacking_env ?ds 0 () = Inr r"
  proof (rule f [THEN conjunct2, THEN conjunct2, THEN conjunct2, THEN mp], intro conjI disjI1)
    show "(0::int) \<le> 0" by simp
    show "0 < int (len ?ds)" using l by simp
    show "entry_bundle ?ds (indexes ?ds ! nat 0) = Some (Some ?c, two_rater_slice, zero_slice 1 1)"
      by (rule b)
    show "raters_ok stacking_env () two_rater_slice" by (rule r)
    show "task ?ds = ''segmentation''" by (rule t)
    show "\<forall>c. Some ?c = Some c \<longrightarrow> ordered_window c \<and>
       (\<forall>seg st1 s st2. pick_rater stacking_env two_rater_slice ((), []) = Inr (seg, st1) \<and>
            run_transforms stacking_env ?ds seg (zero_slice 1 1) st1 = Inr (s, st2) \<longrightarrow>
            image_stacks s)"
      by (rule h)
  qed
  from 1 2 3 4 5 show ?thesis by simp
qed

text \<open>
  A later step can still fail for an index inside the range. With patching and any task
  but segmentation the label is a tensor of one dimension, which the crop of lines
  262-264 cannot slice on three axes: no fetch returns, whatever the index.
\<close>

lemma from_numpy_expand1_shape:
  "from_numpy_expand1 x = Inr label \<Longrightarrow> shape label = [1]"
  by (cases x) (auto simp: from_numpy_expand1_def split: list.splits if_splits)

lemma classification_label_shape:
  assumes "classification_label seg = Inr label"
  shows "shape label = [1]"
proof (cases "gt seg")
  case None
  with assms show ?thesis by (simp add: classification_label_def)
next
  case (Some g)
  with assms obtain x where "from_numpy_expand1 x = Inr label"
    by (auto simp: classification_label_def bind_eq_Inr)
  then show ?thesis by (rule from_numpy_expand1_shape)
qed

lemma resolve_entry_patch:
  assumes "is_2d_patch self" "resolve_entry self index = Inr (entry, seg0, roi)"
  shows "\<exists>c. entry = Some c"
proof -
  from assms obtain e where
    e: "(case e of Item _ \<Rightarrow> Inl TypeError
         | Patch c \<Rightarrow> bind (list_get (handlers self) (handler_index c))
                       (\<lambda>(seg, roi). Inr (Some c, seg, roi))) = Inr (entry, seg0, roi)"
    by (auto simp: resolve_entry_def bind_eq_Inr)
  show ?thesis
  proof (cases e)
    case (Patch c)
    with e show ?thesis by (auto simp: bind_eq_Inr)
  next
    case (Item p)
    with e show ?thesis by simp
  qed
qed

lemma assemble_label_raises:
  assumes "stack_gt s = Some label" "shape label = [1]"
  shows "assemble (Some c) s \<noteq> Inr d"
proof
  assume a: "assemble (Some c) s = Inr d"
  then obtain z_gt r_gt where
    z: "zeros_optional (Some label) (x_max c - x_min c) (y_max c - y_min c) = Inr z_gt" and
    r: "crop_optional (Some label) z_gt c = Inr r_gt"
    using assms(1)
    by (auto simp: assemble_def Let_def bind_eq_Inr split: option.splits)
  from z obtain z' where "z_gt = Some z'"
    by (auto simp: zeros_optional_def bind_eq_Inr)
  with r assms(2) show False
    by (simp add: crop_optional_def crop_loop_def tensor_len_def crop_def)
qed

lemma classification_patch_never_returns:
  assumes "is_2d_patch self" "task self \<noteq> ''segmentation''"
  shows "getitem env self index w \<noteq> Inr r"
proof
  assume g: "getitem env self index w = Inr r"
  then obtain entry seg0 roi seg w1 evs1 s w4 evs d0 where
    1: "resolve_entry self index = Inr (entry, seg0, roi)" and
    2: "pick_rater env seg0 (w, []) = Inr (seg, w1, evs1)" and
    3: "run_transforms env self seg roi (w1, evs1) = Inr (s, w4, evs)" and
    4: "assemble entry s = Inr d0"
    by (auto simp: getitem_def bind_eq_Inr Let_def split: if_splits prod.splits)
  from resolve_entry_patch [OF assms(1) 1] obtain c where c: "entry = Some c" by blast
  from 3 assms(2) obtain label where
    l: "classification_label seg = Inr label" "stack_gt s = Some label"
    by (auto simp: run_transforms_def call_transform_def Let_def bind_eq_Inr split: prod.splits)
  from assemble_label_raises [OF l(2) classification_label_shape [OF l(1)]] 4 c
  show False by simp
qed

text \<open>On a dataset of one patch, the fetch at index 0 raises \<open>IndexError\<close>.\<close>

lemma classification_patch_fetch_raises:
  "getitem stacking_env classification_patch_dataset 0 () = Inl IndexError"
  by (simp add: getitem_def resolve_entry_def classification_patch_dataset_def patch_dataset_def
      list_get_def pick_rater_def zero_slice_def stacking_env_def stack_arrays_def
      run_transforms_def call_transform_def or_empty_def assemble_def Let_def
      classification_label_def from_numpy_expand1_def
      zeros_like_stack_def zeros_def zeros_optional_def crop_optional_def crop_loop_def
      tensor_len_def crop_def slice_bounds_def adjust_bound_def upt_conv_Cons)

section \<open>Properties of the transforms\<close>

text \<open>
  With \<open>labeled\<close> set, the ground truth that \<open>ROICrop2D\<close> returns is a crop of the
  input it returns, taken with the same window: line 51 passes \<open>input_data\<close>, which
  line 45 has already replaced by its crop, and the ground truth read at line 49 is not
  used.
\<close>

lemma roi_crop_gt_is_second_crop:
  assumes "labeled self" "ROICrop2D_call self smp = Inr smp'"
  shows "\<exists>fh fw. img_input smp' = F_crop (img_input smp) fh fw (fst (crop_size self)) (snd (crop_size self)) \<and>
           img_gt smp' = Some (F_crop (img_input smp') fh fw (fst (crop_size self)) (snd (crop_size self)))"
  using assms
  by (auto simp: ROICrop2D_call_def Let_def bind_eq_Inr propagate_params_def
      split: prod.splits option.splits) blast

lemma square_center: "rounded_center_of_mass (img_roi square_sample) = Inr (2, 2)"
  by (simp add: rounded_center_of_mass_def square_sample_def total_mass_def row_moment_def
      col_moment_def round_half_even_def Let_def)

text \<open>
  Claim C8 says that the returned ground truth is the crop window applied to the
  ground-truth array. The code does not do that. On a 4 by 4 sample with the ROI at
  pixel \<open>(2, 2)\<close> and a crop size of \<open>(2, 2)\<close> the window starts at \<open>(1, 1)\<close>; the
  window applied to the ground truth is \<open>[[1, 1], [1, 1]]\<close>, and the code returns
  \<open>[[11, 0], [0, 0]]\<close>, the window applied a second time to the cropped input
  \<open>[[6, 7], [10, 11]]\<close>.
\<close>

theorem roi_crop_gt_reads_cropped_input:
  "ROICrop2D_call \<lparr>crop_size = (2, 2), labeled = True\<rparr> square_sample =
     Inr (square_sample\<lparr>img_input := [[6, 7], [10, 11]],
            img_gt := Some [[11, 0], [0, 0]],
            img_input_metadata := [(''__centercrop'', IntList [1, 1, 4, 4])],
            img_gt_metadata := Some [(''__centercrop'', IntList [1, 1, 4, 4])]\<rparr>) \<and>
   F_crop [[0, 0, 0, 0], [0, 1, 1, 0], [0, 1, 1, 0], [0, 0, 0, 0]] 1 1 2 2 = [[1, 1], [1, 1]] \<and>
   F_crop [[1, 2, 3, 4], [5, 6, 7, 8], [9, 10, 11, 12], [13, 14, 15, 16]] 1 1 2 2 = [[6, 7], [10, 11]] \<and>
   F_crop [[6, 7], [10, 11]] 1 1 2 2 = [[11, 0], [0, 0]]"
proof -
  have c1: "F_crop [[1, 2, 3, 4], [5, 6, 7, 8], [9, 10, 11, 12], [13, 14, 15, 16]] 1 1 2 2 = [[6, 7], [10, 11]]"
    by (simp add: F_crop_def pixel_at_def upt_conv_Cons numeral_2_eq_2)
  have c2: "F_crop [[6, 7], [10, 11]] 1 1 2 2 = [[11, 0], [0, 0]]"
    by (simp add: F_crop_def pixel_at_def upt_conv_Cons numeral_2_eq_2)
  have c3: "F_crop [[0, 0, 0, 0], [0, 1, 1, 0], [0, 1, 1, 0], [0, 0, 0, 0]] 1 1 2 2 = [[1, 1], [1, 1]]"
    by (simp add: F_crop_def pixel_at_def upt_conv_Cons numeral_2_eq_2)
  have "ROICrop2D_call \<lparr>crop_size = (2, 2), labeled = True\<rparr> square_sample =
     Inr (square_sample\<lparr>img_input := [[6, 7], [10, 11]],
            img_gt := Some [[11, 0], [0, 0]],
            img_input_metadata := [(''__centercrop'', IntList [1, 1, 4, 4])],
            img_gt_metadata := Some [(''__centercrop'', IntList [1, 1, 4, 4])]\<rparr>)"
    using c1 c2
    by (simp add: ROICrop2D_call_def square_center Let_def round_half_even_def image_size_def
        propagate_params_def)
       (simp add: square_sample_def)
  with c1 c2 c3 show ?thesis by simp
qed

text \<open>
  \<open>DilateGT\<close> returns the sample as it is when the dilation factor is not positive or
  the ground truth sums to zero.
\<close>

lemma DilateGT_no_op:
  assumes "img_gt smp = Some g" "dil_factor self \<le> 0 \<or> total_mass g = 0"
  shows "DilateGT_call label finish self smp = Inr smp"
  using assms by (auto simp: DilateGT_call_def)

text \<open>
  With a positive factor and a ground truth in which \<open>label\<close> finds an object, the
  first round of the loop of \<open>dilate_arr\<close> raises \<open>NameError\<close>.
\<close>

lemma dilate_arr_raises:
  assumes "1 \<le> snd (label arr)"
  shows "dilate_arr label arr factor = Inl NameError"
proof -
  obtain arr_labeled lb_nb where l: "label arr = (arr_labeled, lb_nb)" by (cases "label arr")
  with assms have "1 < lb_nb + 1" by simp
  then have "[1..<lb_nb + 1] = 1 # [Suc 1..<lb_nb + 1]" by (rule upt_conv_Cons)
  then show ?thesis by (simp add: dilate_arr_def l Let_def del: upt_Suc)
qed

lemma DilateGT_raises:
  assumes "img_gt smp = Some g" "0 < dil_factor self" "total_mass g \<noteq> 0" "1 \<le> snd (label g)"
  shows "DilateGT_call label finish self smp = Inl NameError"
  using assms by (simp add: DilateGT_call_def dilate_arr_raises)

text \<open>
  Claim C9 says that a positive factor on a slice with a foreground voxel yields a soft
  ground truth of the same shape with values in \<open>[0, 1]\<close>. The code raises
  \<open>NameError\<close> instead, here for the factor 1 on the 1 by 1 ground truth \<open>[[1]]\<close>,
  whatever the steps after \<open>dilate_arr\<close> would do.
\<close>

theorem dilate_gt_raises_name_error:
  "DilateGT_call dot_label finish \<lparr>dil_factor = 1\<rparr> dot_sample = Inl NameError"
proof -
  have "img_gt dot_sample = Some [[1]]" by (simp add: dot_sample_def)
  moreover have "total_mass [[1]] \<noteq> 0" by (simp add: total_mass_def)
  moreover have "1 \<le> snd (dot_label [[1]])" by (simp add: dot_label_def total_mass_def)
  ultimately show ?thesis by (intro DilateGT_raises) simp_all
qed

end
